theory Spec2Isabelle
  imports Complex_Main "HOL-Library.Word" "HOL-Library.Monad_Syntax"
begin

section \<open>JavaScript strings\<close>

text \<open>
  A JavaScript string is a sequence of UTF-16 code units. The regular expressions of
  \<^verbatim>\<open>server.js\<close> have no \<^verbatim>\<open>u\<close> flag, so they match code unit by code unit, and
  \<^verbatim>\<open>substring\<close> and \<^verbatim>\<open>length\<close> count code units as well.
\<close>

type_synonym jschar = "16 word"
type_synonym jsstring = "jschar list"

text \<open>An ASCII literal of the source, as code units.\<close>

definition js :: "string \<Rightarrow> jsstring" where
  "js s = map (\<lambda>c. word_of_nat (of_char c)) s"

section \<open>Input sanitization helpers\<close>

text \<open>
  \<^verbatim>\<open>sanitizeInput(input)\<close> is \<^verbatim>\<open>xss(input.replace(/\0/g, ''))\<close> on a string. The filter
  \<^verbatim>\<open>xss\<close> is the third-party package of that name; it is a parameter here.
\<close>

definition sanitizeInput :: "(jsstring \<Rightarrow> jsstring) \<Rightarrow> jsstring \<Rightarrow> jsstring" where
  "sanitizeInput xss input = xss (filter (\<lambda>c. c \<noteq> 0) input)"

text \<open>The class \<^verbatim>\<open>[\x00-\x08\x0B\x0C\x0E-\x1F\x7F]\<close> of \<^verbatim>\<open>sanitizeForPDF\<close>.\<close>

definition pdfDangerous :: "jschar \<Rightarrow> bool" where
  "pdfDangerous c \<longleftrightarrow>
     c \<le> 0x08 \<or> c = 0x0B \<or> c = 0x0C \<or> (0x0E \<le> c \<and> c \<le> 0x1F) \<or> c = 0x7F"

definition sanitizeForPDF :: "jsstring \<Rightarrow> jsstring" where
  "sanitizeForPDF input = take 10000 (filter (\<lambda>c. \<not> pdfDangerous c) input)"

text \<open>The class \<^verbatim>\<open>[a-zA-Z0-9._-]\<close> whose complement \<^verbatim>\<open>sanitizeFilename\<close> deletes.\<close>

definition filenameChar :: "jschar \<Rightarrow> bool" where
  "filenameChar c \<longleftrightarrow>
     (0x61 \<le> c \<and> c \<le> 0x7A) \<or> (0x41 \<le> c \<and> c \<le> 0x5A) \<or> (0x30 \<le> c \<and> c \<le> 0x39)
     \<or> c = 0x2E \<or> c = 0x5F \<or> c = 0x2D"

definition sanitizeFilename :: "jsstring \<Rightarrow> jsstring" where
  "sanitizeFilename filename = take 255 (filter filenameChar filename)"

text \<open>
  Path separators, and the traversal sequences \<^verbatim>\<open>../\<close> and \<^verbatim>\<open>..\\<close> built from them.
  \<open>contains t s\<close> holds when \<open>t\<close> occurs in \<open>s\<close> as a contiguous run.
\<close>

definition pathSeparator :: "jschar \<Rightarrow> bool" where
  "pathSeparator c \<longleftrightarrow> c = 0x2F \<or> c = 0x5C"

fun isPrefix :: "'a list \<Rightarrow> 'a list \<Rightarrow> bool" where
  "isPrefix [] ys = True"
| "isPrefix (x # xs) [] = False"
| "isPrefix (x # xs) (y # ys) = (x = y \<and> isPrefix xs ys)"

fun contains :: "'a list \<Rightarrow> 'a list \<Rightarrow> bool" where
  "contains t [] = (t = [])"
| "contains t (y # ys) = (isPrefix t (y # ys) \<or> contains t ys)"

definition traversalSequence :: "jsstring \<Rightarrow> bool" where
  "traversalSequence t \<longleftrightarrow> t = [0x2E, 0x2E, 0x2F] \<or> t = [0x2E, 0x2E, 0x5C]"

section \<open>The request record\<close>

text \<open>
  The object literal built by the submit handler: thirteen string properties, and
  \<^verbatim>\<open>pdfUrl\<close>, which is absent until the handler assigns it.
\<close>

record design_request =
  id' :: jsstring
  clientName :: jsstring
  email :: jsstring
  phoneNumber :: jsstring
  projectType :: jsstring
  timeline :: jsstring
  budget :: jsstring
  designDescription :: jsstring
  referenceWebsites :: jsstring
  colorPreferences :: jsstring
  stylePreferences :: jsstring
  keyFeatures :: jsstring
  status :: jsstring
  createdAt :: jsstring
  pdfUrl :: "jsstring option"

section \<open>Rendering: the calls \<open>generatePDF\<close> makes on the document\<close>

text \<open>
  \<^verbatim>\<open>generatePDF\<close> drives a PDFKit document through a fixed sequence of calls; the bytes
  PDFKit makes of them are its own business. The model records the calls in order. Every
  field of the record is a string here, so \<^verbatim>\<open>request.x || ''\<close> is \<^verbatim>\<open>request.x\<close>.
\<close>

datatype font = Helvetica | HelveticaBold

datatype alignment = AlignCenter | AlignLeft

datatype text_option = Align alignment | Indent nat | Width nat

datatype doc_call =
    FontSize nat
  | Font font
  | Text jsstring "text_option list"
  | MoveDown real
  | End

definition titleBlock :: "(jsstring \<Rightarrow> jsstring) \<Rightarrow> design_request \<Rightarrow> doc_call list" where
  "titleBlock toLocaleString request =
     [FontSize 24, Font HelveticaBold, Text (js ''Design Request Submission'') [Align AlignCenter],
      MoveDown 0.5,
      FontSize 10, Font Helvetica,
      Text (js ''Submitted: '' @ toLocaleString (createdAt request)) [Align AlignCenter],
      MoveDown 1]"

definition clientInformation :: "design_request \<Rightarrow> doc_call list" where
  "clientInformation request =
     (let safeClientName = sanitizeForPDF (clientName request);
          safeEmail = sanitizeForPDF (email request);
          safePhoneNumber = sanitizeForPDF (phoneNumber request)
      in [FontSize 16, Font HelveticaBold, Text (js ''Client Information'') [],
          MoveDown 0.3,
          FontSize 12, Font Helvetica, Text (js ''Name: '' @ safeClientName) [Indent 20],
          Text (js ''Email: '' @ safeEmail) [Indent 20]]
         @ (if safePhoneNumber \<noteq> [] then [Text (js ''Phone: '' @ safePhoneNumber) [Indent 20]]
            else [])
         @ [MoveDown 0.5])"

definition projectDetails :: "design_request \<Rightarrow> doc_call list" where
  "projectDetails request =
     (let safeProjectType = sanitizeForPDF (projectType request);
          safeTimeline = sanitizeForPDF (timeline request);
          safeBudget = sanitizeForPDF (budget request)
      in [FontSize 16, Font HelveticaBold, Text (js ''Project Details'') [],
          MoveDown 0.3,
          FontSize 12, Font Helvetica, Text (js ''Project Type: '' @ safeProjectType) [Indent 20],
          Text (js ''Timeline: '' @ safeTimeline) [Indent 20],
          Text (js ''Budget Range: $'' @ safeBudget) [Indent 20],
          MoveDown 0.5])"

definition projectDescription :: "design_request \<Rightarrow> doc_call list" where
  "projectDescription request =
     (let safeDescription = sanitizeForPDF (designDescription request)
      in [FontSize 16, Font HelveticaBold, Text (js ''Project Description'') [],
          MoveDown 0.3,
          FontSize 11, Font Helvetica,
          Text safeDescription [Indent 20, Align AlignLeft, Width 500],
          MoveDown 0.5])"

definition designPreferences :: "design_request \<Rightarrow> doc_call list" where
  "designPreferences request =
     (let safeColorPrefs = sanitizeForPDF (colorPreferences request);
          safeStylePrefs = sanitizeForPDF (stylePreferences request)
      in if safeColorPrefs \<noteq> [] \<or> safeStylePrefs \<noteq> [] then
           [FontSize 16, Font HelveticaBold, Text (js ''Design Preferences'') [],
            MoveDown 0.3,
            FontSize 12, Font Helvetica]
           @ (if safeColorPrefs \<noteq> []
              then [Text (js ''Color Preferences: '' @ safeColorPrefs) [Indent 20]] else [])
           @ (if safeStylePrefs \<noteq> []
              then [Text (js ''Style Preferences: '' @ safeStylePrefs) [Indent 20]] else [])
           @ [MoveDown 0.5]
         else [])"

definition keyFeaturesRequired :: "design_request \<Rightarrow> doc_call list" where
  "keyFeaturesRequired request =
     (let safeKeyFeatures = sanitizeForPDF (keyFeatures request)
      in if safeKeyFeatures \<noteq> [] then
           [FontSize 16, Font HelveticaBold, Text (js ''Key Features Required'') [],
            MoveDown 0.3,
            FontSize 11, Font Helvetica,
            Text safeKeyFeatures [Indent 20, Align AlignLeft, Width 500],
            MoveDown 0.5]
         else [])"

definition referenceWebsitesSection :: "design_request \<Rightarrow> doc_call list" where
  "referenceWebsitesSection request =
     (let safeRefWebsites = sanitizeForPDF (referenceWebsites request)
      in if safeRefWebsites \<noteq> [] then
           [FontSize 16, Font HelveticaBold, Text (js ''Reference Websites'') [],
            MoveDown 0.3,
            FontSize 11, Font Helvetica,
            Text safeRefWebsites [Indent 20, Align AlignLeft, Width 500]]
         else [])"

definition footer :: "design_request \<Rightarrow> doc_call list" where
  "footer request =
     (let safeId = sanitizeForPDF (id' request)
      in [MoveDown 2, FontSize 8, Font Helvetica,
          Text (js ''Request ID: '' @ safeId) [Align AlignCenter],
          End])"

text \<open>The whole sequence, in the order of the source.\<close>

definition generatePDF_calls :: "(jsstring \<Rightarrow> jsstring) \<Rightarrow> design_request \<Rightarrow> doc_call list" where
  "generatePDF_calls toLocaleString request =
     titleBlock toLocaleString request @ clientInformation request @ projectDetails request
     @ projectDescription request @ designPreferences request @ keyFeaturesRequired request
     @ referenceWebsitesSection request @ footer request"

text \<open>The heading and the two lines of the Design Preferences section.\<close>

definition preferencesHeading :: doc_call where
  "preferencesHeading = Text (js ''Design Preferences'') []"

definition colorLine :: "jsstring \<Rightarrow> doc_call" where
  "colorLine safeColorPrefs = Text (js ''Color Preferences: '' @ safeColorPrefs) [Indent 20]"

definition styleLine :: "jsstring \<Rightarrow> doc_call" where
  "styleLine safeStylePrefs = Text (js ''Style Preferences: '' @ safeStylePrefs) [Indent 20]"

fun isColorLine :: "doc_call \<Rightarrow> bool" where
  "isColorLine (Text t opts) = (isPrefix (js ''Color Preferences: '') t \<and> opts = [Indent 20])"
| "isColorLine _ = False"

fun isStyleLine :: "doc_call \<Rightarrow> bool" where
  "isStyleLine (Text t opts) = (isPrefix (js ''Style Preferences: '') t \<and> opts = [Indent 20])"
| "isStyleLine _ = False"

section \<open>Validation middleware\<close>

text \<open>
  The white space of JavaScript (\<^verbatim>\<open>\s\<close>, and what \<^verbatim>\<open>String.prototype.trim\<close> strips),
  and \<^verbatim>\<open>\d\<close>.
\<close>

definition jsWhitespace :: "jschar \<Rightarrow> bool" where
  "jsWhitespace c \<longleftrightarrow>
     (0x09 \<le> c \<and> c \<le> 0x0D) \<or> c = 0x20 \<or> c = 0xA0 \<or> c = 0x1680
     \<or> (0x2000 \<le> c \<and> c \<le> 0x200A) \<or> c = 0x2028 \<or> c = 0x2029 \<or> c = 0x202F
     \<or> c = 0x205F \<or> c = 0x3000 \<or> c = 0xFEFF"

definition trim :: "jsstring \<Rightarrow> jsstring" where
  "trim s = rev (dropWhile jsWhitespace (rev (dropWhile jsWhitespace s)))"

definition jsDigit :: "jschar \<Rightarrow> bool" where
  "jsDigit c \<longleftrightarrow> 0x30 \<le> c \<and> c \<le> 0x39"

text \<open>
  A property of \<^verbatim>\<open>req.body\<close>: absent, a string, or \<^verbatim>\<open>false\<close> (which
  \<^verbatim>\<open>normalizeEmail\<close> may return). The validators and sanitizers see it through the
  string conversion of express-validator. The form posts strings; numbers, arrays and
  objects in the body are not modelled.
\<close>

datatype jsvalue = JUndefined | JString jsstring | JFalse

fun toString :: "jsvalue \<Rightarrow> jsstring" where
  "toString JUndefined = []"
| "toString (JString s) = s"
| "toString JFalse = js ''false''"

type_synonym body = "string \<Rightarrow> jsvalue"

text \<open>
  What the third-party packages compute is not part of the repository: the predicates and
  sanitizers of \<^verbatim>\<open>validator\<close> and the \<^verbatim>\<open>xss\<close> filter are parameters.
\<close>

record libs =
  isEmail :: "jsstring \<Rightarrow> bool"
  normalizeEmail :: "jsstring \<Rightarrow> jsvalue"
  isURL :: "jsstring \<Rightarrow> bool"
  escape :: "jsstring \<Rightarrow> jsstring"
  xss :: "jsstring \<Rightarrow> jsstring"

text \<open>
  The length that \<^verbatim>\<open>isLength\<close> of \<^verbatim>\<open>validator\<close> compares with its bounds is not
  \<^verbatim>\<open>str.length\<close>: it is the number of code units, less the matches of
  \<^verbatim>\<open>/(\uFE0F|\uFE0E)/g\<close> (variation selectors), less the matches of
  \<^verbatim>\<open>/[\uD800-\uDBFF][\uDC00-\uDFFF]/g\<close> (surrogate pairs). The matches of a global pattern are
  found from left to right and do not overlap. Both bounds are inclusive, and \<^verbatim>\<open>min\<close> is 0
  when it is not given.
\<close>

definition variationSelector :: "jschar \<Rightarrow> bool" where
  "variationSelector c \<longleftrightarrow> c = 0xFE0F \<or> c = 0xFE0E"

definition highSurrogate :: "jschar \<Rightarrow> bool" where
  "highSurrogate c \<longleftrightarrow> 0xD800 \<le> c \<and> c \<le> 0xDBFF"

definition lowSurrogate :: "jschar \<Rightarrow> bool" where
  "lowSurrogate c \<longleftrightarrow> 0xDC00 \<le> c \<and> c \<le> 0xDFFF"

definition presentationSequences :: "jsstring \<Rightarrow> nat" where
  "presentationSequences s = length (filter variationSelector s)"

fun surrogatePairs :: "jsstring \<Rightarrow> nat" where
  "surrogatePairs (h # l # rest) =
     (if highSurrogate h \<and> lowSurrogate l then Suc (surrogatePairs rest)
      else surrogatePairs (l # rest))"
| "surrogatePairs [c] = 0"
| "surrogatePairs [] = 0"

definition validatorLength :: "jsstring \<Rightarrow> nat" where
  "validatorLength s = length s - presentationSequences s - surrogatePairs s"

definition isLength :: "nat \<Rightarrow> nat option \<Rightarrow> jsstring \<Rightarrow> bool" where
  "isLength lo hi s \<longleftrightarrow>
     lo \<le> validatorLength s \<and> (case hi of None \<Rightarrow> True | Some m \<Rightarrow> validatorLength s \<le> m)"

text \<open>The items of a validation chain, as the source chains them after \<^verbatim>\<open>body(field)\<close>.\<close>

datatype chain_item =
    Optional
  | Trim
  | Escape
  | NormalizeEmail
  | IsLength nat "nat option"
  | IsEmail
  | IsIn "jsstring list"
  | Custom "libs \<Rightarrow> jsstring \<Rightarrow> bool"
  | WithMessage string

text \<open>The two custom validators: the phone pattern \<^verbatim>\<open>/^[\d\s\-\(\)\+\.]+$/\<close> and the URL list.\<close>

definition phoneChar :: "jschar \<Rightarrow> bool" where
  "phoneChar c \<longleftrightarrow>
     jsDigit c \<or> jsWhitespace c \<or> c = 0x2D \<or> c = 0x28 \<or> c = 0x29 \<or> c = 0x2B \<or> c = 0x2E"

definition phoneCustom :: "libs \<Rightarrow> jsstring \<Rightarrow> bool" where
  "phoneCustom L value = (if value = [] then True else list_all phoneChar value)"

fun splitOn :: "('a \<Rightarrow> bool) \<Rightarrow> 'a list \<Rightarrow> 'a list list" where
  "splitOn P [] = [[]]"
| "splitOn P (x # xs) =
     (if P x then [] # splitOn P xs
      else (case splitOn P xs of [] \<Rightarrow> [[x]] | y # ys \<Rightarrow> (x # y) # ys))"

definition referenceCustom :: "libs \<Rightarrow> jsstring \<Rightarrow> bool" where
  "referenceCustom L value =
     (if value = [] then True
      else (let urls = filter (\<lambda>url. url \<noteq> [])
                         (map trim (splitOn (\<lambda>c. c = 0x0A \<or> c = 0x2C) value))
            in list_all (\<lambda>url. isURL L url \<or> length url < 100) urls))"

definition validateSubmitRequest :: "(string \<times> chain_item list) list" where
  "validateSubmitRequest =
     [(''clientName'',
         [Trim, IsLength 1 (Some 100),
          WithMessage ''Name must be between 1 and 100 characters'', Escape]),
      (''email'',
         [Trim, IsEmail, NormalizeEmail, WithMessage ''Invalid email address'',
          IsLength 0 (Some 255), WithMessage ''Email too long'']),
      (''phoneNumber'',
         [Optional, Trim, IsLength 0 (Some 20), WithMessage ''Phone number too long'',
          Custom phoneCustom, WithMessage ''Invalid phone number format'', Escape]),
      (''projectType'',
         [Trim, IsIn (map js [''website'', ''redesign'', ''landing'', ''ecommerce'', ''other'']),
          WithMessage ''Invalid project type'']),
      (''timeline'',
         [Trim, IsIn (map js [''asap'', ''1month'', ''2-3months'', ''flexible'']),
          WithMessage ''Invalid timeline selection'']),
      (''budget'',
         [Trim, IsIn (map js [''200-500'', ''500-1000'', ''1000-2500'', ''2500-5000'', ''5000+'']),
          WithMessage ''Invalid budget selection'']),
      (''designDescription'',
         [Trim, IsLength 10 (Some 5000),
          WithMessage ''Description must be between 10 and 5000 characters'', Escape]),
      (''referenceWebsites'',
         [Optional, Trim, IsLength 0 (Some 2000), WithMessage ''Reference websites too long'',
          Custom referenceCustom, WithMessage ''Invalid URL in reference websites'']),
      (''colorPreferences'',
         [Optional, Trim, IsLength 0 (Some 200), WithMessage ''Color preferences too long'',
          Escape]),
      (''stylePreferences'',
         [Optional, Trim,
          IsIn (map js [''modern'', ''minimalist'', ''bold'', ''professional'', ''creative'',
                        ''elegant'', ''playful'', ''rustic'', ''industrial'', ''vintage'',
                        ''luxury'', ''tech'', ''corporate'', ''artistic'', ''clean'', []]),
          WithMessage ''Invalid style preference selection'', Escape]),
      (''keyFeatures'',
         [Optional, Trim, IsLength 0 (Some 2000), WithMessage ''Key features too long'',
          Escape])]"

text \<open>The chain of \<^verbatim>\<open>designDescription\<close>, the seventh of the list.\<close>

definition descriptionChain :: "string \<times> chain_item list" where
  "descriptionChain = (''designDescription'',
         [Trim, IsLength 10 (Some 5000),
          WithMessage ''Description must be between 10 and 5000 characters'', Escape])"

subsection \<open>Running a chain\<close>

text \<open>
  express-validator runs the items of a chain in order. A sanitizer replaces the value; a
  validator that fails adds its message and the chain goes on (there is no \<^verbatim>\<open>bail\<close>).
  \<^verbatim>\<open>withMessage\<close> sets the message of the last validator before it, across sanitizers. A
  chain marked \<^verbatim>\<open>optional\<close> is skipped when the property is absent.
\<close>

fun messageFor :: "chain_item list \<Rightarrow> string" where
  "messageFor (WithMessage m # rest) = m"
| "messageFor (Trim # rest) = messageFor rest"
| "messageFor (Escape # rest) = messageFor rest"
| "messageFor (NormalizeEmail # rest) = messageFor rest"
| "messageFor rest = ''Invalid value''"

definition check :: "bool \<Rightarrow> string \<Rightarrow> string list \<times> jsvalue \<Rightarrow> string list \<times> jsvalue" where
  "check ok msg r = (case r of (errs, v) \<Rightarrow> ((if ok then [] else [msg]) @ errs, v))"

fun runItems :: "libs \<Rightarrow> chain_item list \<Rightarrow> jsvalue \<Rightarrow> string list \<times> jsvalue" where
  "runItems L [] v = ([], v)"
| "runItems L (Optional # rest) v = runItems L rest v"
| "runItems L (WithMessage m # rest) v = runItems L rest v"
| "runItems L (Trim # rest) v = runItems L rest (JString (trim (toString v)))"
| "runItems L (Escape # rest) v = runItems L rest (JString (escape L (toString v)))"
| "runItems L (NormalizeEmail # rest) v = runItems L rest (normalizeEmail L (toString v))"
| "runItems L (IsLength lo hi # rest) v =
     check (isLength lo hi (toString v)) (messageFor rest) (runItems L rest v)"
| "runItems L (IsEmail # rest) v =
     check (isEmail L (toString v)) (messageFor rest) (runItems L rest v)"
| "runItems L (IsIn options # rest) v =
     check (toString v \<in> set options) (messageFor rest) (runItems L rest v)"
| "runItems L (Custom f # rest) v =
     check (f L (toString v)) (messageFor rest) (runItems L rest v)"

fun isOptional :: "chain_item \<Rightarrow> bool" where
  "isOptional Optional = True"
| "isOptional _ = False"

definition skipped :: "chain_item list \<Rightarrow> jsvalue \<Rightarrow> bool" where
  "skipped items v \<longleftrightarrow> list_ex isOptional items \<and> v = JUndefined"

text \<open>The messages one chain adds for a body, and the body it leaves.\<close>

definition chainErrors :: "libs \<Rightarrow> string \<times> chain_item list \<Rightarrow> body \<Rightarrow> string list" where
  "chainErrors L ch b =
     (if skipped (snd ch) (b (fst ch)) then [] else fst (runItems L (snd ch) (b (fst ch))))"

definition chainBody :: "libs \<Rightarrow> string \<times> chain_item list \<Rightarrow> body \<Rightarrow> body" where
  "chainBody L ch b =
     (if skipped (snd ch) (b (fst ch)) then b
      else b(fst ch := snd (runItems L (snd ch) (b (fst ch)))))"

text \<open>
  The chains are middleware run one after the other on the same request;
  \<^verbatim>\<open>validationResult(req).array()\<close> lists their messages in that order.
\<close>

fun runChains :: "libs \<Rightarrow> (string \<times> chain_item list) list \<Rightarrow> body \<Rightarrow> string list \<times> body" where
  "runChains L [] b = ([], b)"
| "runChains L (ch # chs) b =
     (case runChains L chs (chainBody L ch b) of
        (errs, b') \<Rightarrow> (chainErrors L ch b @ errs, b'))"

definition validationResult :: "libs \<Rightarrow> body \<Rightarrow> string list \<times> body" where
  "validationResult L b = runChains L validateSubmitRequest b"

section \<open>The local ledger, the renderer and the external stores\<close>

text \<open>
  The ledger file \<^verbatim>\<open>data/requests.json\<close>: missing, not parseable as JSON, JSON that is not
  an array, or the array of records that \<^verbatim>\<open>writeRequests\<close> serialized. A record is an
  object of strings, which \<^verbatim>\<open>JSON.stringify\<close> and \<^verbatim>\<open>JSON.parse\<close> reproduce exactly; the
  model keeps the records and not their text.
\<close>

datatype ledger_file = Missing | InvalidJSON | NotAnArray | Records "design_request list"

datatype parsed = Array "design_request list" | NonArray

type_synonym bytes = "8 word list"

type_synonym row = "(string \<times> jsstring option) list"

record supabase_client =
  supabaseUrl :: jsstring
  supabaseBucket :: jsstring
  storageUpload :: "jsstring \<Rightarrow> bytes \<Rightarrow> bool"
  dbInsert :: "row \<Rightarrow> bool"

text \<open>
  What one submission meets outside the handler: the clock, the outcome of the file reads
  and writes, PDFKit, and the Supabase client (\<open>None\<close> when it is not configured). A failed
  write leaves the file in a state the handler does not control.
\<close>

record env =
  dateNow :: nat
  toISOString :: jsstring
  dateNowUpload :: nat
  toLocaleString :: "jsstring \<Rightarrow> jsstring"
  readFails :: bool
  writeFails :: bool
  leftByFailedWrite :: ledger_file
  pdfkit :: "doc_call list \<Rightarrow> bytes option"
  supabase :: "supabase_client option"

datatype effect =
    WriteLedger "design_request list" bool
  | RenderPDF bool
  | UploadPDF jsstring bool
  | InsertRow row bool

definition readRequests :: "env \<Rightarrow> ledger_file \<Rightarrow> parsed" where
  "readRequests E file =
     (if readFails E then Array []
      else (case file of
              Missing \<Rightarrow> Array []
            | InvalidJSON \<Rightarrow> Array []
            | NotAnArray \<Rightarrow> NonArray
            | Records rs \<Rightarrow> Array rs))"

text \<open>\<open>Inl\<close> is the rejected promise, with the file as the failed write left it.\<close>

definition writeRequests :: "env \<Rightarrow> design_request list \<Rightarrow> ledger_file + ledger_file" where
  "writeRequests E requests =
     (if writeFails E then Inl (leftByFailedWrite E) else Inr (Records requests))"

definition generatePDF :: "env \<Rightarrow> design_request \<Rightarrow> bytes option" where
  "generatePDF E request = pdfkit E (generatePDF_calls (toLocaleString E) request)"

text \<open>
  \<^verbatim>\<open>uploadPDFToSupabase\<close> and \<^verbatim>\<open>saveRequestToDatabase\<close>: \<open>False\<close> is a throw. The key handed
  to the storage is the sanitized file name.
\<close>

definition uploadPDFToSupabase ::
    "supabase_client option \<Rightarrow> bytes \<Rightarrow> jsstring \<Rightarrow> bool \<times> effect list" where
  "uploadPDFToSupabase sb pdfBuffer fileName =
     (case sb of
        None \<Rightarrow> (False, [])
      | Some S \<Rightarrow>
          (let safeFileName = sanitizeFilename fileName in
           if length pdfBuffer = 0 then (False, [])
           else if length pdfBuffer > 10 * 1024 * 1024 then (False, [])
           else (let ok = storageUpload S safeFileName pdfBuffer
                 in (ok, [UploadPDF safeFileName ok]))))"

definition orNull :: "jsstring \<Rightarrow> jsstring option" where
  "orNull s = (if s = [] then None else Some s)"

definition requestRow :: "design_request \<Rightarrow> row" where
  "requestRow request =
     [(''id'', Some (id' request)),
      (''client_name'', Some (clientName request)),
      (''email'', Some (email request)),
      (''phone_number'', orNull (phoneNumber request)),
      (''project_type'', Some (projectType request)),
      (''timeline'', Some (timeline request)),
      (''budget'', Some (budget request)),
      (''design_description'', Some (designDescription request)),
      (''reference_websites'', orNull (referenceWebsites request)),
      (''color_preferences'', orNull (colorPreferences request)),
      (''style_preferences'', orNull (stylePreferences request)),
      (''key_features'', orNull (keyFeatures request)),
      (''status'', Some (status request)),
      (''pdf_url'', (case pdfUrl request of None \<Rightarrow> None | Some u \<Rightarrow> orNull u)),
      (''created_at'', Some (createdAt request))]"

definition saveRequestToDatabase ::
    "supabase_client option \<Rightarrow> design_request \<Rightarrow> bool \<times> effect list" where
  "saveRequestToDatabase sb request =
     (case sb of
        None \<Rightarrow> (False, [])
      | Some S \<Rightarrow>
          (let ok = dbInsert S (requestRow request)
           in (ok, [InsertRow (requestRow request) ok])))"

section \<open>The submit handler\<close>

text \<open>\<^verbatim>\<open>Date.now().toString()\<close>: the decimal digits of the clock reading.\<close>

function decimal :: "nat \<Rightarrow> jsstring" where
  "decimal n =
     (if n < 10 then [word_of_nat (48 + n)]
      else decimal (n div 10) @ [word_of_nat (48 + n mod 10)])"
  by pat_completeness auto
termination
  by (relation "measure (\<lambda>n. n)") auto

declare decimal.simps [simp del]

text \<open>
  \<^verbatim>\<open>x?.trim() || ''\<close>: the empty string for an absent property, the trimmed string for a
  string, and a \<^verbatim>\<open>TypeError\<close> (\<open>None\<close>) for \<^verbatim>\<open>false\<close>, which has no \<^verbatim>\<open>trim\<close>.
\<close>

fun trimOrEmpty :: "jsvalue \<Rightarrow> jsstring option" where
  "trimOrEmpty JUndefined = Some []"
| "trimOrEmpty (JString s) = Some (trim s)"
| "trimOrEmpty JFalse = None"

definition buildRequest :: "libs \<Rightarrow> env \<Rightarrow> body \<Rightarrow> design_request option" where
  "buildRequest L E b =
     do {
       clientName \<leftarrow> trimOrEmpty (b ''clientName'');
       email \<leftarrow> trimOrEmpty (b ''email'');
       phoneNumber \<leftarrow> trimOrEmpty (b ''phoneNumber'');
       projectType \<leftarrow> trimOrEmpty (b ''projectType'');
       timeline \<leftarrow> trimOrEmpty (b ''timeline'');
       budget \<leftarrow> trimOrEmpty (b ''budget'');
       designDescription \<leftarrow> trimOrEmpty (b ''designDescription'');
       referenceWebsites \<leftarrow> trimOrEmpty (b ''referenceWebsites'');
       colorPreferences \<leftarrow> trimOrEmpty (b ''colorPreferences'');
       stylePreferences \<leftarrow> trimOrEmpty (b ''stylePreferences'');
       keyFeatures \<leftarrow> trimOrEmpty (b ''keyFeatures'');
       Some \<lparr> id' = decimal (dateNow E),
              clientName = sanitizeInput (xss L) clientName,
              email = sanitizeInput (xss L) email,
              phoneNumber = sanitizeInput (xss L) phoneNumber,
              projectType = sanitizeInput (xss L) projectType,
              timeline = sanitizeInput (xss L) timeline,
              budget = sanitizeInput (xss L) budget,
              designDescription = sanitizeInput (xss L) designDescription,
              referenceWebsites = sanitizeInput (xss L) referenceWebsites,
              colorPreferences = sanitizeInput (xss L) colorPreferences,
              stylePreferences = sanitizeInput (xss L) stylePreferences,
              keyFeatures = sanitizeInput (xss L) keyFeatures,
              status = js ''pending_review'',
              createdAt = toISOString E,
              pdfUrl = None \<rparr>
     }"

text \<open>The three responses of the handler.\<close>

datatype json_body =
    Success bool string
  | ValidationError string "string list"
  | Error string

record response =
  statusCode :: nat
  json :: json_body

definition submitted :: response where
  "submitted = \<lparr> statusCode = 200, json = Success True ''Request submitted successfully'' \<rparr>"

definition validationFailed :: "string list \<Rightarrow> response" where
  "validationFailed details =
     \<lparr> statusCode = 400, json = ValidationError ''Validation failed'' details \<rparr>"

definition genericFailure :: response where
  "genericFailure =
     \<lparr> statusCode = 500,
       json = Error ''An error occurred while processing your request. Please try again later.'' \<rparr>"

text \<open>
  What a run of the handler leaves: the response, the ledger file, the request object as
  the handler last held it, and the writes, renderings, uploads and inserts it attempted,
  in order, each with its outcome.
\<close>

record outcome =
  response :: response
  ledger :: ledger_file
  requestObject :: "design_request option"
  trace :: "effect list"

definition fileNameFor :: "env \<Rightarrow> design_request \<Rightarrow> jsstring" where
  "fileNameFor E request =
     js ''design-request-'' @ id' request @ js ''-'' @ decimal (dateNowUpload E) @ js ''.pdf''"

definition publicUrl :: "supabase_client \<Rightarrow> jsstring \<Rightarrow> jsstring" where
  "publicUrl S fileName =
     supabaseUrl S @ js ''/storage/v1/object/public/'' @ supabaseBucket S @ js ''/'' @ fileName"

text \<open>The block \<^verbatim>\<open>Generate PDF and upload to Supabase\<close>, with its two nested \<^verbatim>\<open>try\<close>.\<close>

definition pdfStage :: "env \<Rightarrow> design_request \<Rightarrow> design_request \<times> effect list" where
  "pdfStage E request =
     (case generatePDF E request of
        None \<Rightarrow> (request, [RenderPDF False])
      | Some pdfBuffer \<Rightarrow>
          (let fileName = fileNameFor E request in
           case supabase E of
             None \<Rightarrow> (request, [RenderPDF True])
           | Some S \<Rightarrow>
               (let up = uploadPDFToSupabase (Some S) pdfBuffer fileName in
                if fst up
                then (request\<lparr> pdfUrl := Some (publicUrl S fileName) \<rparr>, RenderPDF True # snd up)
                else (request, RenderPDF True # snd up))))"

text \<open>The block \<^verbatim>\<open>Save request to Supabase database\<close>.\<close>

definition mirrorStage :: "env \<Rightarrow> design_request \<Rightarrow> effect list" where
  "mirrorStage E request =
     (case supabase E of
        None \<Rightarrow> []
      | Some S \<Rightarrow> snd (saveRequestToDatabase (Some S) request))"

definition submitRequest :: "libs \<Rightarrow> env \<Rightarrow> body \<Rightarrow> ledger_file \<Rightarrow> outcome" where
  "submitRequest L E reqBody file =
     (let errors = fst (validationResult L reqBody); b = snd (validationResult L reqBody) in
      if errors \<noteq> [] then
        \<lparr> response = validationFailed errors, ledger = file, requestObject = None, trace = [] \<rparr>
      else
        (case buildRequest L E b of
           None \<Rightarrow>
             \<lparr> response = genericFailure, ledger = file, requestObject = None, trace = [] \<rparr>
         | Some request \<Rightarrow>
             (case readRequests E file of
                NonArray \<Rightarrow>
                  \<lparr> response = genericFailure, ledger = file,
                    requestObject = Some request, trace = [] \<rparr>
              | Array requests \<Rightarrow>
                  (case writeRequests E (requests @ [request]) of
                     Inl left \<Rightarrow>
                       \<lparr> response = genericFailure, ledger = left,
                         requestObject = Some request,
                         trace = [WriteLedger (requests @ [request]) False] \<rparr>
                   | Inr written \<Rightarrow>
                       (let staged = pdfStage E request;
                            mirrored = mirrorStage E (fst staged)
                        in \<lparr> response = submitted, ledger = written,
                             requestObject = Some (fst staged),
                             trace = WriteLedger (requests @ [request]) True
                                     # snd staged @ mirrored \<rparr>)))))"

text \<open>Submissions handled one after the other, each in its own environment.\<close>

fun processSubmissions :: "libs \<Rightarrow> (env \<times> body) list \<Rightarrow> ledger_file \<Rightarrow> ledger_file" where
  "processSubmissions L [] file = file"
| "processSubmissions L (s # rest) file =
     processSubmissions L rest (ledger (submitRequest L (fst s) (snd s) file))"

text \<open>
  The handler awaits between \<^verbatim>\<open>readRequests\<close> and \<^verbatim>\<open>writeRequests\<close> (lines 521 to 523) and
  holds no lock, so the reads and writes of overlapping submissions interleave. An access is
  the read of handler \<open>k\<close>, or the write by which handler \<open>k\<close> stores the list it read with its
  record pushed; a handler that read something other than an array has failed and does not
  write.
\<close>

datatype access = Reads nat env | Writes nat env design_request

fun runAccesses ::
    "access list \<Rightarrow> (nat \<Rightarrow> design_request list option) \<Rightarrow> ledger_file \<Rightarrow> ledger_file" where
  "runAccesses [] held file = file"
| "runAccesses (Reads k E # rest) held file =
     (case readRequests E file of
        Array requests \<Rightarrow> runAccesses rest (held(k := Some requests)) file
      | NonArray \<Rightarrow> runAccesses rest (held(k := None)) file)"
| "runAccesses (Writes k E request # rest) held file =
     (case held k of
        None \<Rightarrow> runAccesses rest held file
      | Some requests \<Rightarrow>
          runAccesses rest (held(k := None))
            (case writeRequests E (requests @ [request]) of
               Inl left \<Rightarrow> left
             | Inr written \<Rightarrow> written))"

text \<open>The accesses of submissions handled one at a time: each reads, then writes.\<close>

fun oneAtATime :: "(env \<times> design_request) list \<Rightarrow> access list" where
  "oneAtATime [] = []"
| "oneAtATime (s # rest) = Reads 0 (fst s) # Writes 0 (fst s) (snd s) # oneAtATime rest"

section \<open>Concrete inputs\<close>

text \<open>
  Stand-ins for the packages and the environment, to run the handler on concrete
  submissions: an address is anything with an \<^verbatim>\<open>@\<close>, a URL anything with a dot, and
  escaping and filtering change nothing.
\<close>

definition plainLibs :: libs where
  "plainLibs =
     \<lparr> isEmail = (\<lambda>s. 0x40 \<in> set s),
       normalizeEmail = JString,
       isURL = (\<lambda>s. 0x2E \<in> set s),
       escape = (\<lambda>s. s),
       xss = (\<lambda>s. s) \<rparr>"

definition sampleBody :: body where
  "sampleBody =
     (\<lambda>field. JUndefined)
       (''clientName'' := JString (js ''Ada Lovelace''),
        ''email'' := JString (js ''ada@example.com''),
        ''projectType'' := JString (js ''website''),
        ''timeline'' := JString (js ''asap''),
        ''budget'' := JString (js ''200-500''),
        ''designDescription'' := JString (js ''A portfolio site''))"

definition sampleRequest :: design_request where
  "sampleRequest =
     \<lparr> id' = js ''1700000000000'',
       clientName = js ''Ada Lovelace'',
       email = js ''ada@example.com'',
       phoneNumber = [],
       projectType = js ''website'',
       timeline = js ''asap'',
       budget = js ''200-500'',
       designDescription = js ''A portfolio site'',
       referenceWebsites = [],
       colorPreferences = [],
       stylePreferences = [],
       keyFeatures = [],
       status = js ''pending_review'',
       createdAt = js ''2023-11-14T22:13:20.000Z'',
       pdfUrl = None \<rparr>"

text \<open>A Supabase client whose upload and insert succeed or fail as told.\<close>

definition sampleSupabase :: "bool \<Rightarrow> bool \<Rightarrow> supabase_client" where
  "sampleSupabase uploads inserts =
     \<lparr> supabaseUrl = js ''https://project.supabase.co'',
       supabaseBucket = js ''design-requests'',
       storageUpload = (\<lambda>key pdfBuffer. uploads),
       dbInsert = (\<lambda>r. inserts) \<rparr>"

text \<open>
  An environment at the clock reading 1700000000000 in which every stage works.
\<close>

definition sampleEnv :: env where
  "sampleEnv =
     \<lparr> dateNow = 1700000000000,
       toISOString = js ''2023-11-14T22:13:20.000Z'',
       dateNowUpload = 1700000000005,
       toLocaleString = (\<lambda>iso. iso),
       readFails = False,
       writeFails = False,
       leftByFailedWrite = InvalidJSON,
       pdfkit = (\<lambda>calls. Some [0x25, 0x50, 0x44, 0x46]),
       supabase = Some (sampleSupabase True True) \<rparr>"

text \<open>Further environments and a second submission.\<close>

definition renderFailsEnv :: env where
  "renderFailsEnv = sampleEnv\<lparr> pdfkit := (\<lambda>calls. None) \<rparr>"

definition laterEnv :: env where
  "laterEnv = sampleEnv\<lparr> dateNow := 1700000000123 \<rparr>"

definition secondBody :: body where
  "secondBody = sampleBody(''clientName'' := JString (js ''Grace Hopper''))"

text \<open>
  Descriptions: a text between white space (a space and a tab before, a line feed and a
  space after), and the two code units of U+1F600.
\<close>

definition padded :: "jsstring \<Rightarrow> jsstring" where
  "padded core = [0x20, 0x09] @ core @ [0x0A, 0x20]"

definition emoji :: jsstring where
  "emoji = [0xD83D, 0xDE00]"

definition secondRequest :: design_request where
  "secondRequest =
     sampleRequest\<lparr> id' := js ''1700000000123'', clientName := js ''Grace Hopper'' \<rparr>"

text \<open>The events of the trace, by kind and outcome.\<close>

fun ledgerWriteOk :: "effect \<Rightarrow> bool" where
  "ledgerWriteOk (WriteLedger requests ok) = ok"
| "ledgerWriteOk _ = False"

fun ledgerWriteFailed :: "effect \<Rightarrow> bool" where
  "ledgerWriteFailed (WriteLedger requests ok) = (\<not> ok)"
| "ledgerWriteFailed _ = False"

fun downstream :: "effect \<Rightarrow> bool" where
  "downstream (WriteLedger requests ok) = False"
| "downstream _ = True"

fun uploadOk :: "effect \<Rightarrow> bool" where
  "uploadOk (UploadPDF key ok) = ok"
| "uploadOk _ = False"

text \<open>The records a reader of the ledger file gets when the read itself does not fail.\<close>

fun recordsOf :: "ledger_file \<Rightarrow> design_request list" where
  "recordsOf (Records rs) = rs"
| "recordsOf _ = []"

text \<open>
  A submission that the handler stores as the record \<open>r\<close>: it passes validation, the
  record is built, and neither the read nor the write of the ledger file fails.
\<close>

definition stored :: "libs \<Rightarrow> env \<times> body \<Rightarrow> design_request \<Rightarrow> bool" where
  "stored L s r \<longleftrightarrow>
     fst (validationResult L (snd s)) = []
     \<and> buildRequest L (fst s) (snd (validationResult L (snd s))) = Some r
     \<and> \<not> readFails (fst s) \<and> \<not> writeFails (fst s)"

section \<open>Properties of the sanitizers\<close>

lemma filenameChar_not_separator: "filenameChar c \<Longrightarrow> \<not> pathSeparator c"
  by (auto simp: filenameChar_def pathSeparator_def)

lemma sanitizeFilename_chars: "c \<in> set (sanitizeFilename s) \<Longrightarrow> filenameChar c"
  unfolding sanitizeFilename_def by (auto dest: in_set_takeD)

lemma isPrefix_set: "isPrefix t s \<Longrightarrow> set t \<subseteq> set s"
  by (induction t s rule: isPrefix.induct) auto

lemma contains_set: "contains t s \<Longrightarrow> set t \<subseteq> set s"
proof (induction s)
  case Nil
  then show ?case by simp
next
  case (Cons y ys)
  then show ?case using isPrefix_set [of t "y # ys"] by auto
qed

lemma traversalSequence_separator: "traversalSequence t \<Longrightarrow> \<exists>c \<in> set t. pathSeparator c"
  by (auto simp: traversalSequence_def pathSeparator_def)

lemma js_passwd: "sanitizeFilename (js ''../../etc/passwd.pdf'') = js ''....etcpasswd.pdf''"
  by (simp add: sanitizeFilename_def js_def filenameChar_def)

lemma sanitizeFilename_no_traversal:
  assumes "traversalSequence t"
  shows "\<not> contains t (sanitizeFilename s)"
proof
  assume "contains t (sanitizeFilename s)"
  then have sub: "set t \<subseteq> set (sanitizeFilename s)" by (rule contains_set)
  from assms obtain c where c: "c \<in> set t" "pathSeparator c"
    using traversalSequence_separator by blast
  from c(1) sub have "filenameChar c" using sanitizeFilename_chars by blast
  with c(2) show False using filenameChar_not_separator by blast
qed

lemma upload_key:
  "UploadPDF key ok \<in> set (snd (uploadPDFToSupabase sb pdfBuffer fileName)) \<Longrightarrow>
     key = sanitizeFilename fileName"
  by (auto simp: uploadPDFToSupabase_def Let_def split: option.splits if_splits)

text \<open>
  C4. For every input string, \<open>sanitizeFilename\<close> returns a name made only of ASCII letters,
  digits, dots, underscores and hyphens, of length at most 255. In particular the suggested
  artifact name \<^verbatim>\<open>../../etc/passwd.pdf\<close> becomes the key \<^verbatim>\<open>....etcpasswd.pdf\<close>, which has no
  path separator and no traversal sequence (\<^verbatim>\<open>../\<close> or \<^verbatim>\<open>..\\<close>), and that is the key
  \<open>uploadPDFToSupabase\<close> hands to the storage.
\<close>

theorem sanitizeFilename_safe:
  "(\<forall>c \<in> set (sanitizeFilename s). filenameChar c)
   \<and> length (sanitizeFilename s) \<le> 255
   \<and> sanitizeFilename (js ''../../etc/passwd.pdf'') = js ''....etcpasswd.pdf''
   \<and> (\<forall>c \<in> set (sanitizeFilename (js ''../../etc/passwd.pdf'')). \<not> pathSeparator c)
   \<and> (\<forall>t. traversalSequence t \<longrightarrow>
         \<not> contains t (sanitizeFilename (js ''../../etc/passwd.pdf'')))
   \<and> (UploadPDF key ok
         \<in> set (snd (uploadPDFToSupabase sb pdfBuffer (js ''../../etc/passwd.pdf''))) \<longrightarrow>
       key = js ''....etcpasswd.pdf'')"
proof -
  have "\<forall>c \<in> set (sanitizeFilename s). filenameChar c"
    using sanitizeFilename_chars by blast
  moreover have "length (sanitizeFilename s) \<le> 255"
    by (simp add: sanitizeFilename_def)
  moreover have "\<forall>c \<in> set (sanitizeFilename (js ''../../etc/passwd.pdf'')). \<not> pathSeparator c"
    using sanitizeFilename_chars filenameChar_not_separator by blast
  moreover have "key = js ''....etcpasswd.pdf''"
    if "UploadPDF key ok \<in> set (snd (uploadPDFToSupabase sb pdfBuffer (js ''../../etc/passwd.pdf'')))"
    using upload_key [OF that] by (simp add: js_passwd)
  ultimately show ?thesis
    using js_passwd sanitizeFilename_no_traversal by blast
qed

theorem sanitizeFilename_safe_witness:
  "0x65 \<in> set (sanitizeFilename (js ''../../etc/passwd.pdf''))
   \<and> filenameChar 0x65 \<and> \<not> pathSeparator 0x65
   \<and> length (sanitizeFilename (js ''../../etc/passwd.pdf'')) \<le> 255
   \<and> traversalSequence (js ''../'')
   \<and> \<not> contains (js ''../'') (sanitizeFilename (js ''../../etc/passwd.pdf''))
   \<and> UploadPDF (js ''....etcpasswd.pdf'') True
        \<in> set (snd (uploadPDFToSupabase (Some (sampleSupabase True True)) [0x25, 0x50, 0x44, 0x46]
                      (js ''../../etc/passwd.pdf'')))"
proof -
  have mem: "0x65 \<in> set (sanitizeFilename (js ''../../etc/passwd.pdf''))"
    by (simp add: js_passwd) (simp add: js_def)
  have tr: "traversalSequence (js ''../'')"
    by (simp add: traversalSequence_def js_def)
  have up: "UploadPDF (sanitizeFilename (js ''../../etc/passwd.pdf'')) True
        \<in> set (snd (uploadPDFToSupabase (Some (sampleSupabase True True)) [0x25, 0x50, 0x44, 0x46]
                      (js ''../../etc/passwd.pdf'')))"
    by (simp add: uploadPDFToSupabase_def sampleSupabase_def Let_def)
  from mem tr up show ?thesis
    using sanitizeFilename_safe [of "js ''../../etc/passwd.pdf''"
        "sanitizeFilename (js ''../../etc/passwd.pdf'')" True "Some (sampleSupabase True True)"
        "[0x25, 0x50, 0x44, 0x46]"]
    by (simp add: js_passwd)
qed

subsection \<open>Sanitizing twice\<close>

lemma take_filter_idem: "take n (filter P (take n (filter P s))) = take n (filter P s)"
proof -
  have "filter P (take n (filter P s)) = take n (filter P s)"
    by (rule filter_True) (auto dest: in_set_takeD)
  then show ?thesis by simp
qed

lemma sanitizeForPDF_idem: "sanitizeForPDF (sanitizeForPDF s) = sanitizeForPDF s"
  unfolding sanitizeForPDF_def by (rule take_filter_idem)

lemma sanitizeFilename_idem: "sanitizeFilename (sanitizeFilename s) = sanitizeFilename s"
  unfolding sanitizeFilename_def by (rule take_filter_idem)

text \<open>
  \<open>sanitizeInput\<close> adds only the removal of NUL to the filter it wraps: it is idempotent
  whenever that filter is idempotent and introduces no NUL.
\<close>

lemma sanitizeInput_idem_relative:
  assumes idem: "\<And>t. filt (filt t) = filt t"
    and nul: "\<And>t. 0 \<notin> set t \<Longrightarrow> 0 \<notin> set (filt t)"
  shows "sanitizeInput filt (sanitizeInput filt s) = sanitizeInput filt s"
proof -
  let ?t = "filter (\<lambda>c. c \<noteq> 0) s"
  have "0 \<notin> set (filt ?t)" by (rule nul) simp
  then have "filter (\<lambda>c. c \<noteq> 0) (filt ?t) = filt ?t"
    by (intro filter_True) auto
  then show ?thesis by (simp add: sanitizeInput_def idem)
qed
section \<open>The rendered document\<close>

lemma sanitizeForPDF_Nil: "sanitizeForPDF [] = []"
  by (simp add: sanitizeForPDF_def)

lemma heading_not_in_other_sections:
  "preferencesHeading \<notin> set (titleBlock loc r)"
  "preferencesHeading \<notin> set (clientInformation r)"
  "preferencesHeading \<notin> set (projectDetails r)"
  "preferencesHeading \<notin> set (projectDescription r)"
  "preferencesHeading \<notin> set (keyFeaturesRequired r)"
  "preferencesHeading \<notin> set (referenceWebsitesSection r)"
  "preferencesHeading \<notin> set (footer r)"
  by (simp_all add: preferencesHeading_def titleBlock_def clientInformation_def projectDetails_def
      projectDescription_def keyFeaturesRequired_def referenceWebsitesSection_def footer_def
      Let_def js_def)

lemma no_color_line_elsewhere:
  "\<not> list_ex isColorLine (titleBlock loc r)"
  "\<not> list_ex isColorLine (clientInformation r)"
  "\<not> list_ex isColorLine (projectDetails r)"
  "\<not> list_ex isColorLine (projectDescription r)"
  "\<not> list_ex isColorLine (keyFeaturesRequired r)"
  "\<not> list_ex isColorLine (referenceWebsitesSection r)"
  "\<not> list_ex isColorLine (footer r)"
  by (simp_all add: titleBlock_def clientInformation_def projectDetails_def
      projectDescription_def keyFeaturesRequired_def referenceWebsitesSection_def footer_def
      Let_def js_def)

lemma no_style_line_elsewhere:
  "\<not> list_ex isStyleLine (titleBlock loc r)"
  "\<not> list_ex isStyleLine (clientInformation r)"
  "\<not> list_ex isStyleLine (projectDetails r)"
  "\<not> list_ex isStyleLine (projectDescription r)"
  "\<not> list_ex isStyleLine (keyFeaturesRequired r)"
  "\<not> list_ex isStyleLine (referenceWebsitesSection r)"
  "\<not> list_ex isStyleLine (footer r)"
  by (simp_all add: titleBlock_def clientInformation_def projectDetails_def
      projectDescription_def keyFeaturesRequired_def referenceWebsitesSection_def footer_def
      Let_def js_def)

lemma isPrefix_append: "isPrefix xs (xs @ ys)"
  by (induction xs) simp_all

lemma contains_append: "contains t s \<Longrightarrow> contains t (p @ s)"
  by (induction p) simp_all

lemma contains_prefix: "contains xs (xs @ ys)"
proof (cases "xs @ ys")
  case Nil
  then show ?thesis by simp
next
  case (Cons a l)
  have "isPrefix xs (xs @ ys)" by (rule isPrefix_append)
  with Cons show ?thesis by simp
qed

lemma contains_middle: "contains m (a @ b @ c @ d @ m @ e @ f @ g)"
proof -
  have "contains m (m @ e @ f @ g)" by (rule contains_prefix)
  then have "contains m ((a @ b @ c @ d) @ m @ e @ f @ g)" by (rule contains_append)
  then show ?thesis by simp
qed

lemma designPreferences_empty:
  assumes "sanitizeForPDF (colorPreferences r) = []" "sanitizeForPDF (stylePreferences r) = []"
  shows "designPreferences r = []"
  using assms by (simp add: designPreferences_def)

lemma designPreferences_color_only:
  assumes "sanitizeForPDF (colorPreferences r) \<noteq> []" "sanitizeForPDF (stylePreferences r) = []"
  shows "designPreferences r =
     [FontSize 16, Font HelveticaBold, preferencesHeading, MoveDown 0.3, FontSize 12,
      Font Helvetica, colorLine (sanitizeForPDF (colorPreferences r)), MoveDown 0.5]"
  using assms by (simp add: designPreferences_def preferencesHeading_def colorLine_def)

text \<open>
  C8, as the code has it. The section is decided on the values after \<open>sanitizeForPDF\<close>.
  When both sanitized preferences are empty, which is so in particular when both fields are
  empty, the document has no Design Preferences heading and no colour or style line. When the
  sanitized colour preferences are not empty and the sanitized style preferences are, the
  section is the heading followed by the colour line alone, it is in the document (after
  the project description), and the document has no style line.
\<close>

theorem designPreferences_section:
  "(sanitizeForPDF (colorPreferences r) = [] \<and> sanitizeForPDF (stylePreferences r) = [] \<longrightarrow>
      designPreferences r = []
      \<and> preferencesHeading \<notin> set (generatePDF_calls loc r)
      \<and> \<not> list_ex isColorLine (generatePDF_calls loc r)
      \<and> \<not> list_ex isStyleLine (generatePDF_calls loc r))
   \<and> (colorPreferences r = [] \<and> stylePreferences r = [] \<longrightarrow>
      sanitizeForPDF (colorPreferences r) = [] \<and> sanitizeForPDF (stylePreferences r) = [])
   \<and> (sanitizeForPDF (colorPreferences r) \<noteq> [] \<and> sanitizeForPDF (stylePreferences r) = [] \<longrightarrow>
      designPreferences r =
        [FontSize 16, Font HelveticaBold, preferencesHeading, MoveDown 0.3, FontSize 12,
         Font Helvetica, colorLine (sanitizeForPDF (colorPreferences r)), MoveDown 0.5]
      \<and> preferencesHeading \<in> set (generatePDF_calls loc r)
      \<and> colorLine (sanitizeForPDF (colorPreferences r)) \<in> set (generatePDF_calls loc r)
      \<and> contains (designPreferences r) (generatePDF_calls loc r)
      \<and> \<not> list_ex isStyleLine (generatePDF_calls loc r))"
proof (intro conjI impI)
  assume e: "sanitizeForPDF (colorPreferences r) = [] \<and> sanitizeForPDF (stylePreferences r) = []"
  then show d: "designPreferences r = []" by (simp add: designPreferences_empty)
  show "preferencesHeading \<notin> set (generatePDF_calls loc r)"
    by (simp add: generatePDF_calls_def d heading_not_in_other_sections)
  show "\<not> list_ex isColorLine (generatePDF_calls loc r)"
    by (simp add: generatePDF_calls_def d no_color_line_elsewhere)
  show "\<not> list_ex isStyleLine (generatePDF_calls loc r)"
    by (simp add: generatePDF_calls_def d no_style_line_elsewhere)
next
  assume "colorPreferences r = [] \<and> stylePreferences r = []"
  then show "sanitizeForPDF (colorPreferences r) = []" "sanitizeForPDF (stylePreferences r) = []"
    by (simp_all add: sanitizeForPDF_Nil)
next
  assume c: "sanitizeForPDF (colorPreferences r) \<noteq> [] \<and> sanitizeForPDF (stylePreferences r) = []"
  then show d: "designPreferences r =
        [FontSize 16, Font HelveticaBold, preferencesHeading, MoveDown 0.3, FontSize 12,
         Font Helvetica, colorLine (sanitizeForPDF (colorPreferences r)), MoveDown 0.5]"
    by (simp add: designPreferences_color_only)
  show "preferencesHeading \<in> set (generatePDF_calls loc r)"
    by (simp add: generatePDF_calls_def d)
  show "colorLine (sanitizeForPDF (colorPreferences r)) \<in> set (generatePDF_calls loc r)"
    by (simp add: generatePDF_calls_def d)
  show "contains (designPreferences r) (generatePDF_calls loc r)"
    unfolding generatePDF_calls_def by (rule contains_middle)
  show "\<not> list_ex isStyleLine (generatePDF_calls loc r)"
    by (simp add: generatePDF_calls_def d no_style_line_elsewhere preferencesHeading_def
        colorLine_def js_def)
qed

theorem designPreferences_section_witness:
  "designPreferences sampleRequest = []
   \<and> preferencesHeading \<notin> set (generatePDF_calls (toLocaleString sampleEnv) sampleRequest)
   \<and> designPreferences (sampleRequest\<lparr> colorPreferences := js ''teal'' \<rparr>) =
        [FontSize 16, Font HelveticaBold, preferencesHeading, MoveDown 0.3, FontSize 12,
         Font Helvetica, colorLine (js ''teal''), MoveDown 0.5]
   \<and> preferencesHeading
        \<in> set (generatePDF_calls (toLocaleString sampleEnv)
                 (sampleRequest\<lparr> colorPreferences := js ''teal'' \<rparr>))
   \<and> colorLine (js ''teal'')
        \<in> set (generatePDF_calls (toLocaleString sampleEnv)
                 (sampleRequest\<lparr> colorPreferences := js ''teal'' \<rparr>))
   \<and> \<not> list_ex isStyleLine
          (generatePDF_calls (toLocaleString sampleEnv)
             (sampleRequest\<lparr> colorPreferences := js ''teal'' \<rparr>))"
proof -
  have e: "colorPreferences sampleRequest = [] \<and> stylePreferences sampleRequest = []"
    by (simp add: sampleRequest_def)
  have t: "sanitizeForPDF (js ''teal'') = js ''teal''"
    by (simp add: sanitizeForPDF_def js_def pdfDangerous_def)
  have c: "sanitizeForPDF (colorPreferences (sampleRequest\<lparr> colorPreferences := js ''teal'' \<rparr>)) \<noteq> []
           \<and> sanitizeForPDF (stylePreferences (sampleRequest\<lparr> colorPreferences := js ''teal'' \<rparr>)) = []"
    by (simp add: t) (simp add: js_def sampleRequest_def sanitizeForPDF_def)
  from e c show ?thesis
    using designPreferences_section [of sampleRequest "toLocaleString sampleEnv"]
      designPreferences_section
        [of "sampleRequest\<lparr> colorPreferences := js ''teal'' \<rparr>" "toLocaleString sampleEnv"]
    by (simp add: t)
qed

text \<open>
  The claim as the specification states it fails for a record whose colour preferences are
  one control character: the field is not empty, the style preferences are, and the document
  has no Design Preferences section.
\<close>

theorem designPreferences_counterexample:
  "colorPreferences (sampleRequest\<lparr> colorPreferences := [0x01] \<rparr>) \<noteq> []
   \<and> stylePreferences (sampleRequest\<lparr> colorPreferences := [0x01] \<rparr>) = []
   \<and> designPreferences (sampleRequest\<lparr> colorPreferences := [0x01] \<rparr>) = []
   \<and> preferencesHeading \<notin> set (generatePDF_calls (toLocaleString sampleEnv)
                                   (sampleRequest\<lparr> colorPreferences := [0x01] \<rparr>))
   \<and> \<not> list_ex isColorLine (generatePDF_calls (toLocaleString sampleEnv)
                                   (sampleRequest\<lparr> colorPreferences := [0x01] \<rparr>))"
proof -
  let ?r = "sampleRequest\<lparr> colorPreferences := [0x01] \<rparr>"
  have c: "sanitizeForPDF (colorPreferences ?r) = []"
    by (simp add: sanitizeForPDF_def pdfDangerous_def)
  have s: "stylePreferences ?r = []" by (simp add: sampleRequest_def)
  then have s': "sanitizeForPDF (stylePreferences ?r) = []" by (simp add: sanitizeForPDF_Nil)
  have d: "designPreferences ?r = []" using c s' by (rule designPreferences_empty)
  have "preferencesHeading \<notin> set (generatePDF_calls (toLocaleString sampleEnv) ?r)"
    by (simp add: generatePDF_calls_def d heading_not_in_other_sections)
  moreover have "\<not> list_ex isColorLine (generatePDF_calls (toLocaleString sampleEnv) ?r)"
    by (simp add: generatePDF_calls_def d no_color_line_elsewhere)
  ultimately show ?thesis using s d by simp
qed

section \<open>Properties of the validation\<close>

lemma trim_plain:
  assumes "s \<noteq> []" "\<not> jsWhitespace (hd s)" "\<not> jsWhitespace (last s)"
  shows "trim s = s"
proof -
  from assms have a: "dropWhile jsWhitespace s = s" by (cases s) auto
  from assms have "rev s \<noteq> []" "\<not> jsWhitespace (hd (rev s))" by (simp_all add: hd_rev)
  then have "dropWhile jsWhitespace (rev s) = rev s" by (cases "rev s") auto
  with a show ?thesis by (simp add: trim_def)
qed

lemma trim_decompose:
  assumes pre: "list_all jsWhitespace pre" and post: "list_all jsWhitespace post"
    and core: "core = [] \<or> (\<not> jsWhitespace (hd core) \<and> \<not> jsWhitespace (last core))"
  shows "trim (pre @ core @ post) = core"
proof (cases "core = []")
  case True
  from pre post have "\<forall>x \<in> set (pre @ post). jsWhitespace x"
    by (auto simp: list_all_iff)
  then have z: "dropWhile jsWhitespace (pre @ post) = []"
    by (simp only: dropWhile_eq_Nil_conv)
  have "trim (pre @ post) = []" unfolding trim_def z by simp
  with True show ?thesis by simp
next
  case False
  with core have h: "\<not> jsWhitespace (hd core)" and l: "\<not> jsWhitespace (last core)" by simp_all
  from pre have "\<And>x. x \<in> set pre \<Longrightarrow> jsWhitespace x" by (simp add: list_all_iff)
  then have "dropWhile jsWhitespace (pre @ core @ post) = dropWhile jsWhitespace (core @ post)"
    by (rule dropWhile_append2)
  also from False h have "\<dots> = core @ post" by (cases core) simp_all
  finally have a: "dropWhile jsWhitespace (pre @ core @ post) = core @ post" .
  from post have "\<And>x. x \<in> set (rev post) \<Longrightarrow> jsWhitespace x" by (simp add: list_all_iff)
  then have "dropWhile jsWhitespace (rev post @ rev core) = dropWhile jsWhitespace (rev core)"
    by (rule dropWhile_append2)
  also from False l have "\<dots> = rev core" by (cases "rev core") (simp_all add: hd_rev)
  finally show ?thesis by (simp add: trim_def a)
qed

lemma surrogatePairs_none: "\<not> list_ex highSurrogate s \<Longrightarrow> surrogatePairs s = 0"
  by (induction s rule: surrogatePairs.induct) simp_all

lemma validatorLength_plain:
  assumes "\<not> list_ex variationSelector s" "\<not> list_ex highSurrogate s"
  shows "validatorLength s = length s"
proof -
  from assms(1) have "filter variationSelector s = []"
    by (simp add: filter_empty_conv list_ex_iff)
  with assms(2) show ?thesis
    by (simp add: validatorLength_def presentationSequences_def surrogatePairs_none)
qed

lemma surrogatePairs_replicate:
  "\<not> highSurrogate a \<Longrightarrow> surrogatePairs (replicate n a @ s) = surrogatePairs s"
proof (induction n)
  case 0
  then show ?case by simp
next
  case (Suc n)
  then show ?case by (cases "replicate n a @ s") simp_all
qed

lemma trim_Nil: "trim [] = []"
  by (simp add: trim_def)

lemma trim_samples:
  "trim (js ''Ada Lovelace'') = js ''Ada Lovelace''"
  "trim (js ''Grace Hopper'') = js ''Grace Hopper''"
  "trim (js ''ada@example.com'') = js ''ada@example.com''"
  "trim (js ''website'') = js ''website''"
  "trim (js ''asap'') = js ''asap''"
  "trim (js ''200-500'') = js ''200-500''"
  "trim (js ''A portfolio site'') = js ''A portfolio site''"
  by (rule trim_plain; simp add: js_def jsWhitespace_def)+

subsection \<open>Validation: each chain reads and writes its own field\<close>

lemma chainBody_other: "g \<noteq> fst ch \<Longrightarrow> chainBody L ch b g = b g"
  by (simp add: chainBody_def)

lemma chainErrors_cong: "b (fst ch) = b' (fst ch) \<Longrightarrow> chainErrors L ch b = chainErrors L ch b'"
  by (simp add: chainErrors_def)

lemma runChains_errors:
  "distinct (map fst chs) \<Longrightarrow>
     fst (runChains L chs b) = concat (map (\<lambda>ch. chainErrors L ch b) chs)"
proof (induction chs arbitrary: b)
  case Nil
  then show ?case by simp
next
  case (Cons ch chs)
  then have d: "distinct (map fst chs)" and n: "fst ch \<notin> fst ` set chs" by simp_all
  have "chainErrors L c (chainBody L ch b) = chainErrors L c b" if "c \<in> set chs" for c
  proof (rule chainErrors_cong)
    from that have "fst c \<in> fst ` set chs" by (rule imageI)
    with n have "fst c \<noteq> fst ch" by metis
    then show "chainBody L ch b (fst c) = b (fst c)" by (rule chainBody_other)
  qed
  then have "map (\<lambda>c. chainErrors L c (chainBody L ch b)) chs = map (\<lambda>c. chainErrors L c b) chs"
    by simp
  with Cons.IH [OF d, of "chainBody L ch b"] show ?case
    by (simp add: split_beta)
qed

lemma distinct_fields: "distinct (map fst validateSubmitRequest)"
  by (simp add: validateSubmitRequest_def)

lemma validation_errors:
  "fst (validationResult L b) = concat (map (\<lambda>ch. chainErrors L ch b) validateSubmitRequest)"
  unfolding validationResult_def by (rule runChains_errors [OF distinct_fields])

lemma description_errors:
  "chainErrors L descriptionChain b =
     (if 10 \<le> validatorLength (trim (toString (b ''designDescription'')))
         \<and> validatorLength (trim (toString (b ''designDescription''))) \<le> 5000
      then [] else [''Description must be between 10 and 5000 characters''])"
  by (simp add: chainErrors_def descriptionChain_def skipped_def check_def isLength_def)

lemma validation_errors_description:
  assumes "\<forall>ch \<in> set validateSubmitRequest.
             fst ch \<noteq> ''designDescription'' \<longrightarrow> chainErrors L ch b = []"
  shows "fst (validationResult L b) = chainErrors L descriptionChain b"
  using assms unfolding validation_errors
  by (simp add: validateSubmitRequest_def descriptionChain_def)

section \<open>Properties of the submit handler\<close>

subsection \<open>The handler, branch by branch\<close>

lemma submit_invalid:
  assumes "fst (validationResult L b) \<noteq> []"
  shows "submitRequest L E b file =
           \<lparr> response = validationFailed (fst (validationResult L b)), ledger = file,
             requestObject = None, trace = [] \<rparr>"
  using assms by (simp add: submitRequest_def Let_def)

lemma submit_not_built:
  assumes "fst (validationResult L b) = []"
    and "buildRequest L E (snd (validationResult L b)) = None"
  shows "submitRequest L E b file =
           \<lparr> response = genericFailure, ledger = file, requestObject = None, trace = [] \<rparr>"
  using assms by (simp add: submitRequest_def Let_def)

lemma submit_not_array:
  assumes "fst (validationResult L b) = []"
    and "buildRequest L E (snd (validationResult L b)) = Some r"
    and "readRequests E file = NonArray"
  shows "submitRequest L E b file =
           \<lparr> response = genericFailure, ledger = file, requestObject = Some r, trace = [] \<rparr>"
  using assms by (simp add: submitRequest_def Let_def)

lemma submit_write_failed:
  assumes "fst (validationResult L b) = []"
    and "buildRequest L E (snd (validationResult L b)) = Some r"
    and "readRequests E file = Array rs"
    and "writeFails E"
  shows "submitRequest L E b file =
           \<lparr> response = genericFailure, ledger = leftByFailedWrite E, requestObject = Some r,
             trace = [WriteLedger (rs @ [r]) False] \<rparr>"
  using assms by (simp add: submitRequest_def Let_def writeRequests_def)

lemma submit_written:
  assumes "fst (validationResult L b) = []"
    and "buildRequest L E (snd (validationResult L b)) = Some r"
    and "readRequests E file = Array rs"
    and "\<not> writeFails E"
  shows "submitRequest L E b file =
           \<lparr> response = submitted, ledger = Records (rs @ [r]),
             requestObject = Some (fst (pdfStage E r)),
             trace = WriteLedger (rs @ [r]) True # snd (pdfStage E r)
                     @ mirrorStage E (fst (pdfStage E r)) \<rparr>"
  using assms by (simp add: submitRequest_def Let_def writeRequests_def)

lemma pdfStage_no_write: "\<not> list_ex ledgerWriteOk (snd (pdfStage E r))"
  "\<not> list_ex ledgerWriteFailed (snd (pdfStage E r))"
  by (auto simp: pdfStage_def uploadPDFToSupabase_def Let_def split: option.splits)

lemma mirrorStage_no_write: "\<not> list_ex ledgerWriteOk (mirrorStage E r)"
  "\<not> list_ex ledgerWriteFailed (mirrorStage E r)"
  by (auto simp: mirrorStage_def saveRequestToDatabase_def Let_def split: option.splits)

text \<open>The five ways a run can go.\<close>

lemma submit_cases:
  obtains
    (invalid) "fst (validationResult L b) \<noteq> []"
  | (not_built) "fst (validationResult L b) = []"
      "buildRequest L E (snd (validationResult L b)) = None"
  | (not_array) r where "fst (validationResult L b) = []"
      "buildRequest L E (snd (validationResult L b)) = Some r" "readRequests E f = NonArray"
  | (write_failed) r rs where "fst (validationResult L b) = []"
      "buildRequest L E (snd (validationResult L b)) = Some r" "readRequests E f = Array rs"
      "writeFails E"
  | (written) r rs where "fst (validationResult L b) = []"
      "buildRequest L E (snd (validationResult L b)) = Some r" "readRequests E f = Array rs"
      "\<not> writeFails E"
proof (cases "fst (validationResult L b) = []")
  case False
  then show ?thesis by (rule invalid)
next
  case v: True
  show ?thesis
  proof (cases "buildRequest L E (snd (validationResult L b))")
    case None
    with v show ?thesis by (rule not_built)
  next
    case (Some r)
    show ?thesis
    proof (cases "readRequests E f")
      case NonArray
      with v Some show ?thesis by (rule not_array)
    next
      case (Array rs)
      with v Some show ?thesis by (cases "writeFails E") (auto intro: write_failed written)
    qed
  qed
qed

text \<open>
  C2. For a submission that passes validation and whose write of the ledger file succeeds,
  the response is the success response, whatever PDFKit, the upload and the insert do: their
  failures are caught and none reaches the caller.
\<close>

theorem stage_failures_tolerated:
  assumes "fst (validationResult L b) = []"
    and "list_ex ledgerWriteOk (trace (submitRequest L E b file))"
  shows "response (submitRequest L E b file) = submitted"
proof (cases rule: submit_cases [where L = L and b = b and E = E and f = "file"])
  case invalid
  with assms(1) show ?thesis by simp
next
  case not_built
  with assms(2) show ?thesis by (simp add: submit_not_built)
next
  case (not_array r)
  with assms(2) show ?thesis by (simp add: submit_not_array)
next
  case (write_failed r rs)
  with assms(2) show ?thesis by (simp add: submit_write_failed)
next
  case (written r rs)
  then show ?thesis by (simp add: submit_written)
qed

text \<open>
  C3. For a submission that passes validation, if the write of the ledger file fails, the
  response is the generic failure and no rendering, upload or insert is attempted.
\<close>

theorem ledger_failure_fatal:
  assumes "fst (validationResult L b) = []"
    and "list_ex ledgerWriteFailed (trace (submitRequest L E b file))"
  shows "response (submitRequest L E b file) = genericFailure
         \<and> \<not> list_ex downstream (trace (submitRequest L E b file))"
proof (cases rule: submit_cases [where L = L and b = b and E = E and f = "file"])
  case invalid
  with assms(1) show ?thesis by simp
next
  case not_built
  with assms(2) show ?thesis by (simp add: submit_not_built)
next
  case (not_array r)
  with assms(2) show ?thesis by (simp add: submit_not_array)
next
  case (write_failed r rs)
  then show ?thesis by (simp add: submit_write_failed)
next
  case (written r rs)
  with assms(2) show ?thesis
    by (simp add: submit_written pdfStage_no_write mirrorStage_no_write)
qed

lemma buildRequest_pdfUrl: "buildRequest L E b = Some r \<Longrightarrow> pdfUrl r = None"
  by (auto simp: buildRequest_def split: bind_splits)

lemma not_rejected:
  assumes "fst (validationResult L b) = []"
  shows "statusCode (response (submitRequest L E b lf)) \<noteq> 400"
proof (cases rule: submit_cases [where L = L and b = b and E = E and f = lf])
  case invalid
  with assms show ?thesis by simp
next
  case not_built
  then show ?thesis by (simp add: submit_not_built genericFailure_def)
next
  case (not_array r)
  then show ?thesis by (simp add: submit_not_array genericFailure_def)
next
  case (write_failed r rs)
  then show ?thesis by (simp add: submit_write_failed genericFailure_def)
next
  case (written r rs)
  then show ?thesis by (simp add: submit_written submitted_def)
qed

text \<open>
  C7, as the code has it. The description is trimmed of the white space around it, and
  what is compared with the bounds is the count of \<^verbatim>\<open>isLength\<close>: code units, a surrogate
  pair counted once and variation selectors not counted. For a submission whose other fields
  pass their chains, a trimmed description that counts 9 is rejected with the validation
  error and its message; counts of 10 and of 5000 pass validation (the response is not the
  400 one); a count of 5001 is rejected. For a trimmed description without variation
  selectors and high surrogates the count is its length.
\<close>

theorem description_length_boundaries:
  assumes "\<forall>ch \<in> set validateSubmitRequest.
             fst ch \<noteq> ''designDescription'' \<longrightarrow> chainErrors L ch b = []"
    and "toString (b ''designDescription'') = pre @ core @ post"
    and "list_all jsWhitespace pre" and "list_all jsWhitespace post"
    and "core = [] \<or> (\<not> jsWhitespace (hd core) \<and> \<not> jsWhitespace (last core))"
  shows "(validatorLength core = 9 \<longrightarrow>
            response (submitRequest L E b lf) =
              validationFailed [''Description must be between 10 and 5000 characters''])
       \<and> (validatorLength core = 10 \<longrightarrow>
            fst (validationResult L b) = []
            \<and> statusCode (response (submitRequest L E b lf)) \<noteq> 400)
       \<and> (validatorLength core = 5000 \<longrightarrow>
            fst (validationResult L b) = []
            \<and> statusCode (response (submitRequest L E b lf)) \<noteq> 400)
       \<and> (validatorLength core = 5001 \<longrightarrow>
            response (submitRequest L E b lf) =
              validationFailed [''Description must be between 10 and 5000 characters''])
       \<and> (\<not> list_ex variationSelector core \<and> \<not> list_ex highSurrogate core \<longrightarrow>
            validatorLength core = length core)"
proof -
  let ?n = "validatorLength core"
  let ?msg = "''Description must be between 10 and 5000 characters''"
  have tr: "trim (toString (b ''designDescription'')) = core"
    unfolding assms(2) using assms(3-5) by (rule trim_decompose)
  have errs: "fst (validationResult L b) = (if 10 \<le> ?n \<and> ?n \<le> 5000 then [] else [?msg])"
    using validation_errors_description [OF assms(1)] by (simp add: description_errors tr)
  have rej: "response (submitRequest L E b lf) = validationFailed [?msg]"
    if "?n < 10 \<or> 5000 < ?n"
  proof -
    from that errs have e: "fst (validationResult L b) = [?msg]" by auto
    then have "fst (validationResult L b) \<noteq> []" by simp
    then show ?thesis by (simp add: submit_invalid e)
  qed
  have acc: "fst (validationResult L b) = [] \<and> statusCode (response (submitRequest L E b lf)) \<noteq> 400"
    if "10 \<le> ?n \<and> ?n \<le> 5000"
  proof -
    from that errs have "fst (validationResult L b) = []" by simp
    then show ?thesis using not_rejected by blast
  qed
  show ?thesis using rej acc validatorLength_plain [of core] by simp
qed

lemma mirrorStage_trace:
  "mirrorStage E r =
     (case supabase E of None \<Rightarrow> []
      | Some S \<Rightarrow> [InsertRow (requestRow r) (dbInsert S (requestRow r))])"
  by (simp add: mirrorStage_def saveRequestToDatabase_def Let_def split: option.splits)

lemma mirrorStage_no_pdf:
  "RenderPDF ok \<notin> set (mirrorStage E r)" "\<not> list_ex uploadOk (mirrorStage E r)"
  by (simp_all add: mirrorStage_trace split: option.splits)

lemma pdfStage_attach:
  "fst (pdfStage E r) =
     r\<lparr> pdfUrl :=
          (if RenderPDF True \<in> set (snd (pdfStage E r)) \<and> list_ex uploadOk (snd (pdfStage E r))
           then map_option (\<lambda>S. publicUrl S (fileNameFor E r)) (supabase E)
           else pdfUrl r) \<rparr>"
  by (auto simp: pdfStage_def uploadPDFToSupabase_def Let_def split: option.splits)

text \<open>
  C1, as the code has it. For a submission that passes validation and whose ledger write
  succeeds, the record is built once, without \<^verbatim>\<open>pdfUrl\<close>, and written to the ledger file
  before anything is rendered: the ledger copy has no \<^verbatim>\<open>pdfUrl\<close>. The request object is
  then changed at most once, in \<^verbatim>\<open>pdfUrl\<close> only, which is set to the public URL exactly when
  the rendering and the upload both succeeded; that object is the one handed to the mirror
  insert.
\<close>

theorem pdfUrl_attached_after_ledger_write:
  assumes "fst (validationResult L b) = []"
    and "buildRequest L E (snd (validationResult L b)) = Some r"
    and "readRequests E lf = Array rs"
    and "\<not> writeFails E"
  shows "ledger (submitRequest L E b lf) = Records (rs @ [r])
       \<and> pdfUrl r = None
       \<and> requestObject (submitRequest L E b lf) =
           Some (r\<lparr> pdfUrl :=
                  (if RenderPDF True \<in> set (trace (submitRequest L E b lf))
                      \<and> list_ex uploadOk (trace (submitRequest L E b lf))
                   then map_option (\<lambda>S. publicUrl S (fileNameFor E r)) (supabase E)
                   else None) \<rparr>)
       \<and> (RenderPDF True \<in> set (trace (submitRequest L E b lf))
            \<and> list_ex uploadOk (trace (submitRequest L E b lf)) \<longrightarrow> supabase E \<noteq> None)
       \<and> (\<forall>S r'. supabase E = Some S \<and> requestObject (submitRequest L E b lf) = Some r' \<longrightarrow>
             InsertRow (requestRow r') (dbInsert S (requestRow r'))
               \<in> set (trace (submitRequest L E b lf)))"
proof -
  let ?out = "submitRequest L E b lf"
  let ?t = "snd (pdfStage E r)"
  have out: "?out = \<lparr> response = submitted, ledger = Records (rs @ [r]),
             requestObject = Some (fst (pdfStage E r)),
             trace = WriteLedger (rs @ [r]) True # ?t @ mirrorStage E (fst (pdfStage E r)) \<rparr>"
    using assms by (rule submit_written)
  have none: "pdfUrl r = None" using assms(2) by (rule buildRequest_pdfUrl)
  have rend: "RenderPDF True \<in> set (trace ?out) \<longleftrightarrow> RenderPDF True \<in> set ?t"
    by (simp add: out mirrorStage_no_pdf)
  have upl: "list_ex uploadOk (trace ?out) \<longleftrightarrow> list_ex uploadOk ?t"
    by (simp add: out mirrorStage_no_pdf)
  have obj: "requestObject ?out = Some (fst (pdfStage E r))" by (simp add: out)
  have att: "fst (pdfStage E r) =
     r\<lparr> pdfUrl :=
          (if RenderPDF True \<in> set (trace ?out) \<and> list_ex uploadOk (trace ?out)
           then map_option (\<lambda>S. publicUrl S (fileNameFor E r)) (supabase E)
           else None) \<rparr>"
    unfolding rend upl using pdfStage_attach [of E r] none by simp
  have conf: "supabase E \<noteq> None" if "RenderPDF True \<in> set ?t \<and> list_ex uploadOk ?t"
    using that by (auto simp: pdfStage_def uploadPDFToSupabase_def Let_def split: option.splits)
  have mir: "InsertRow (requestRow r') (dbInsert S (requestRow r')) \<in> set (trace ?out)"
    if "supabase E = Some S" "requestObject ?out = Some r'" for S r'
  proof -
    from that(2) obj have "r' = fst (pdfStage E r)" by simp
    with that(1) show ?thesis by (simp add: out mirrorStage_trace)
  qed
  show ?thesis
    using out none obj att conf mir unfolding rend upl by (metis outcome.select_convs(2))
qed

lemma read_records:
  assumes "\<not> readFails E" "lf \<noteq> NotAnArray"
  shows "readRequests E lf = Array (recordsOf lf)"
  using assms by (cases lf) (simp_all add: readRequests_def)

lemma stored_ledger:
  assumes "stored L s r" "lf \<noteq> NotAnArray"
  shows "ledger (submitRequest L (fst s) (snd s) lf) = Records (recordsOf lf @ [r])"
proof -
  from assms(1) have v: "fst (validationResult L (snd s)) = []"
    and bl: "buildRequest L (fst s) (snd (validationResult L (snd s))) = Some r"
    and rd: "\<not> readFails (fst s)" and wr: "\<not> writeFails (fst s)"
    by (simp_all add: stored_def)
  from rd assms(2) have "readRequests (fst s) lf = Array (recordsOf lf)" by (rule read_records)
  with v bl wr show ?thesis by (simp add: submit_written)
qed

lemma processSubmissions_stored:
  assumes "list_all2 (stored L) subs rs" "lf \<noteq> NotAnArray"
  shows "processSubmissions L subs lf =
           (if subs = [] then lf else Records (recordsOf lf @ rs))"
  using assms
proof (induction subs rs arbitrary: lf rule: list_all2_induct)
  case Nil
  then show ?case by simp
next
  case (Cons s subs r rs)
  from Cons.hyps(1) Cons.prems
  have step: "ledger (submitRequest L (fst s) (snd s) lf) = Records (recordsOf lf @ [r])"
    by (rule stored_ledger)
  have "Records (recordsOf lf @ [r]) \<noteq> NotAnArray" by simp
  from Cons.IH [OF this] Cons.hyps(2) show ?case
    by (cases subs) (simp_all add: step)
qed


text \<open>
  C10. When the ledger file is missing, cannot be read or is not valid JSON,
  \<open>readRequests\<close> returns the empty list; a submission that passes validation and whose
  write succeeds then leaves a file holding the new record alone, whatever the file held.
\<close>

theorem unreadable_ledger_is_replaced:
  assumes "readFails E \<or> lf = Missing \<or> lf = InvalidJSON"
  shows "readRequests E lf = Array []
       \<and> (fst (validationResult L b) = []
            \<and> buildRequest L E (snd (validationResult L b)) = Some r
            \<and> \<not> writeFails E \<longrightarrow>
          ledger (submitRequest L E b lf) = Records [r]
          \<and> response (submitRequest L E b lf) = submitted)"
proof -
  from assms have rd: "readRequests E lf = Array []" by (auto simp: readRequests_def)
  then show ?thesis by (auto simp: submit_written)
qed

subsection \<open>Overlapping submissions\<close>

lemma runAccesses_pair:
  "runAccesses (Reads k E # Writes k E r # rest) held lf =
     runAccesses rest (held(k := None)) (runAccesses [Reads k E, Writes k E r] held lf)"
  by (simp split: parsed.splits sum.splits)

lemma append_accesses:
  assumes "fst (validationResult L b) = []"
    and "buildRequest L E (snd (validationResult L b)) = Some r"
  shows "ledger (submitRequest L E b lf) = runAccesses [Reads k E, Writes k E r] held lf"
proof (cases "readRequests E lf")
  case NonArray
  with assms show ?thesis by (simp add: submit_not_array)
next
  case (Array rs)
  with assms show ?thesis
    by (cases "writeFails E") (simp_all add: submit_write_failed submit_written writeRequests_def)
qed

text \<open>
  Stored submissions handled one after the other are the schedule in which each handler
  reads and writes before the next one reads.
\<close>

lemma processSubmissions_oneAtATime:
  assumes "list_all2 (stored L) subs rs"
  shows "processSubmissions L subs lf = runAccesses (oneAtATime (zip (map fst subs) rs)) held lf"
  using assms
proof (induction subs rs arbitrary: held lf rule: list_all2_induct)
  case Nil
  then show ?case by simp
next
  case (Cons s subs r rs)
  from Cons.hyps(1)
  have "ledger (submitRequest L (fst s) (snd s) lf)
          = runAccesses [Reads 0 (fst s), Writes 0 (fst s) r] held lf"
    by (intro append_accesses) (simp_all add: stored_def)
  then have step: "ledger (submitRequest L (fst s) (snd s) lf)
          = runAccesses [Reads 0 (fst s), Writes 0 (fst s) r] held lf" .
  have "processSubmissions L (s # subs) lf
          = processSubmissions L subs (ledger (submitRequest L (fst s) (snd s) lf))"
    by simp
  also have "\<dots> = runAccesses (oneAtATime (zip (map fst subs) rs)) (held(0 := None))
                    (ledger (submitRequest L (fst s) (snd s) lf))"
    by (rule Cons.IH)
  also have "\<dots> = runAccesses (oneAtATime (zip (map fst subs) rs)) (held(0 := None))
                    (runAccesses [Reads 0 (fst s), Writes 0 (fst s) r] held lf)"
    by (simp only: step)
  also have "\<dots> = runAccesses (Reads 0 (fst s) # Writes 0 (fst s) r
                                # oneAtATime (zip (map fst subs) rs)) held lf"
    by (rule runAccesses_pair [symmetric])
  also have "\<dots> = runAccesses (oneAtATime (zip (map fst (s # subs)) (r # rs))) held lf"
    by simp
  finally show ?case .
qed

subsection \<open>The sample submissions, evaluated\<close>

lemma decimal_samples:
  "decimal 1700000000000 = js ''1700000000000''"
  "decimal 1700000000123 = js ''1700000000123''"
  by (simp_all add: decimal.simps js_def)

lemma validatorLength_samples:
  "validatorLength (js ''Ada Lovelace'') = 12"
  "validatorLength (js ''Grace Hopper'') = 12"
  "validatorLength (js ''ada@example.com'') = 15"
  "validatorLength (js ''A portfolio site'') = 16"
  "validatorLength [] = 0"
  by (rule trans [OF validatorLength_plain];
      simp add: js_def variationSelector_def highSurrogate_def)+

lemma sample_valid: "validationResult plainLibs sampleBody = ([], sampleBody)"
  apply (simp add: validationResult_def validateSubmitRequest_def sampleBody_def
       chainErrors_def chainBody_def skipped_def check_def trim_samples)
  apply (simp add: plainLibs_def isLength_def validatorLength_samples fun_eq_iff)
  apply (simp add: js_def)
  done

lemma second_valid: "validationResult plainLibs secondBody = ([], secondBody)"
  apply (simp add: validationResult_def validateSubmitRequest_def sampleBody_def secondBody_def
       chainErrors_def chainBody_def skipped_def check_def trim_samples)
  apply (simp add: plainLibs_def isLength_def validatorLength_samples fun_eq_iff)
  apply (simp add: js_def)
  done

lemma strip_nul_samples:
  "filter (\<lambda>c. c \<noteq> 0) (js ''Ada Lovelace'') = js ''Ada Lovelace''"
  "filter (\<lambda>c. c \<noteq> 0) (js ''Grace Hopper'') = js ''Grace Hopper''"
  "filter (\<lambda>c. c \<noteq> 0) (js ''ada@example.com'') = js ''ada@example.com''"
  "filter (\<lambda>c. c \<noteq> 0) (js ''website'') = js ''website''"
  "filter (\<lambda>c. c \<noteq> 0) (js ''asap'') = js ''asap''"
  "filter (\<lambda>c. c \<noteq> 0) (js ''200-500'') = js ''200-500''"
  "filter (\<lambda>c. c \<noteq> 0) (js ''A portfolio site'') = js ''A portfolio site''"
  by (simp_all add: js_def)

lemma sample_built:
  "buildRequest plainLibs E sampleBody =
     Some (sampleRequest\<lparr> id' := decimal (dateNow E), createdAt := toISOString E \<rparr>)"
  by (simp add: buildRequest_def sampleBody_def sampleRequest_def sanitizeInput_def plainLibs_def
      trim_samples trim_Nil strip_nul_samples)

lemma second_built:
  "buildRequest plainLibs E secondBody =
     Some (sampleRequest\<lparr> id' := decimal (dateNow E), clientName := js ''Grace Hopper'',
                          createdAt := toISOString E \<rparr>)"
  by (simp add: buildRequest_def sampleBody_def secondBody_def sampleRequest_def
      sanitizeInput_def plainLibs_def trim_samples trim_Nil strip_nul_samples)

lemma sample_built_now: "buildRequest plainLibs sampleEnv sampleBody = Some sampleRequest"
  by (simp add: sample_built) (simp add: sampleEnv_def sampleRequest_def decimal_samples)

lemma sample_env_fields:
  "\<not> readFails sampleEnv" "\<not> writeFails sampleEnv"
  "\<not> readFails renderFailsEnv" "\<not> writeFails renderFailsEnv"
  "\<not> readFails laterEnv" "\<not> writeFails laterEnv"
  "dateNow renderFailsEnv = dateNow sampleEnv" "toISOString renderFailsEnv = toISOString sampleEnv"
  "toISOString laterEnv = toISOString sampleEnv"
  by (simp_all add: sampleEnv_def renderFailsEnv_def laterEnv_def)

lemma sample_request_now:
  "sampleRequest\<lparr> id' := decimal (dateNow sampleEnv), createdAt := toISOString sampleEnv \<rparr>
     = sampleRequest"
  by (simp add: sampleEnv_def sampleRequest_def decimal_samples)

lemma sample_stored: "stored plainLibs (sampleEnv, sampleBody) sampleRequest"
  by (simp add: stored_def sample_valid sample_built sample_request_now sample_env_fields)

lemma second_stored:
  "stored plainLibs (sampleEnv, secondBody) (sampleRequest\<lparr> clientName := js ''Grace Hopper'' \<rparr>)"
  by (simp add: stored_def second_valid second_built sample_env_fields)
     (simp add: sampleEnv_def sampleRequest_def decimal_samples)


lemma sample_outcome:
  assumes "\<not> writeFails E" "readRequests E lf = Array rs"
    "dateNow E = dateNow sampleEnv" "toISOString E = toISOString sampleEnv"
  shows "submitRequest plainLibs E sampleBody lf =
           \<lparr> response = submitted, ledger = Records (rs @ [sampleRequest]),
             requestObject = Some (fst (pdfStage E sampleRequest)),
             trace = WriteLedger (rs @ [sampleRequest]) True # snd (pdfStage E sampleRequest)
                     @ mirrorStage E (fst (pdfStage E sampleRequest)) \<rparr>"
proof -
  have "buildRequest plainLibs E (snd (validationResult plainLibs sampleBody)) = Some sampleRequest"
    by (simp add: sample_valid sample_built assms(3,4) sample_request_now)
  with assms(1,2) show ?thesis by (simp add: submit_written sample_valid)
qed

lemma pdfStage_works:
  "pdfStage sampleEnv r =
     (r\<lparr> pdfUrl := Some (publicUrl (sampleSupabase True True) (fileNameFor sampleEnv r)) \<rparr>,
      [RenderPDF True, UploadPDF (sanitizeFilename (fileNameFor sampleEnv r)) True])"
  by (simp add: pdfStage_def generatePDF_def uploadPDFToSupabase_def Let_def sampleEnv_def
      sampleSupabase_def)

lemma pdfStage_render_fails: "pdfStage renderFailsEnv r = (r, [RenderPDF False])"
  by (simp add: pdfStage_def generatePDF_def renderFailsEnv_def)

lemma pdfStage_upload_fails:
  "pdfStage (sampleEnv\<lparr> supabase := Some (sampleSupabase False False) \<rparr>) r =
     (r, [RenderPDF True,
          UploadPDF (sanitizeFilename
             (fileNameFor (sampleEnv\<lparr> supabase := Some (sampleSupabase False False) \<rparr>) r)) False])"
  by (simp add: pdfStage_def generatePDF_def uploadPDFToSupabase_def Let_def sampleEnv_def
      sampleSupabase_def)

text \<open>
  The claim C1 as the specification states it fails on the sample submission: the rendering
  and the upload succeed, and the record in the ledger file has no \<^verbatim>\<open>pdfUrl\<close>.
\<close>

theorem ledger_copy_without_pdfUrl:
  "RenderPDF True \<in> set (trace (submitRequest plainLibs sampleEnv sampleBody (Records [])))
   \<and> list_ex uploadOk (trace (submitRequest plainLibs sampleEnv sampleBody (Records [])))
   \<and> response (submitRequest plainLibs sampleEnv sampleBody (Records [])) = submitted
   \<and> ledger (submitRequest plainLibs sampleEnv sampleBody (Records [])) = Records [sampleRequest]
   \<and> pdfUrl sampleRequest = None"
proof -
  have rd: "readRequests sampleEnv (Records []) = Array []"
    by (simp add: readRequests_def sample_env_fields)
  have "pdfUrl sampleRequest = None" by (simp add: sampleRequest_def)
  then show ?thesis
    by (simp add: sample_outcome [OF sample_env_fields(2) rd] pdfStage_works)
qed

text \<open>
  C5 does not hold of the code: the id is the clock reading in milliseconds, and two
  submissions handled at the same reading leave two distinct records with one id.
\<close>

theorem duplicate_ids_same_millisecond:
  "processSubmissions plainLibs [(sampleEnv, sampleBody), (sampleEnv, secondBody)] (Records [])
     = Records [sampleRequest, sampleRequest\<lparr> clientName := js ''Grace Hopper'' \<rparr>]
   \<and> sampleRequest \<noteq> sampleRequest\<lparr> clientName := js ''Grace Hopper'' \<rparr>
   \<and> id' sampleRequest = id' (sampleRequest\<lparr> clientName := js ''Grace Hopper'' \<rparr>)"
proof -
  have "list_all2 (stored plainLibs) [(sampleEnv, sampleBody), (sampleEnv, secondBody)]
          [sampleRequest, sampleRequest\<lparr> clientName := js ''Grace Hopper'' \<rparr>]"
    by (simp add: sample_stored second_stored)
  from processSubmissions_stored [OF this, of "Records []"]
  have "processSubmissions plainLibs [(sampleEnv, sampleBody), (sampleEnv, secondBody)]
               (Records [])
             = Records [sampleRequest, sampleRequest\<lparr> clientName := js ''Grace Hopper'' \<rparr>]"
    by simp
  moreover have "clientName sampleRequest \<noteq> js ''Grace Hopper''"
    by (simp add: sampleRequest_def js_def)
  then have "sampleRequest \<noteq> sampleRequest\<lparr> clientName := js ''Grace Hopper'' \<rparr>"
    by (auto dest: arg_cong [where f = clientName])
  ultimately show ?thesis by simp
qed




text \<open>
  Two submissions whose handlers both read the empty file before either writes: the second
  write replaces the first, and the file holds one record.
\<close>

lemma lost_update:
  "runAccesses [Reads 0 sampleEnv, Reads 1 laterEnv,
                Writes 0 sampleEnv sampleRequest, Writes 1 laterEnv secondRequest]
     (\<lambda>k. None) (Records []) = Records [secondRequest]"
  by (simp add: readRequests_def writeRequests_def sampleEnv_def laterEnv_def)

theorem stage_failures_tolerated_witness:
  "fst (validationResult plainLibs sampleBody) = []
   \<and> list_ex ledgerWriteOk (trace (submitRequest plainLibs renderFailsEnv sampleBody (Records [])))
   \<and> RenderPDF False \<in> set (trace (submitRequest plainLibs renderFailsEnv sampleBody (Records [])))
   \<and> response (submitRequest plainLibs renderFailsEnv sampleBody (Records [])) = submitted
   \<and> list_ex ledgerWriteOk
        (trace (submitRequest plainLibs (sampleEnv\<lparr> supabase := Some (sampleSupabase False False) \<rparr>)
                  sampleBody (Records [])))
   \<and> \<not> list_ex uploadOk
        (trace (submitRequest plainLibs (sampleEnv\<lparr> supabase := Some (sampleSupabase False False) \<rparr>)
                  sampleBody (Records [])))
   \<and> InsertRow (requestRow sampleRequest) False
        \<in> set (trace (submitRequest plainLibs
                         (sampleEnv\<lparr> supabase := Some (sampleSupabase False False) \<rparr>)
                         sampleBody (Records [])))
   \<and> response (submitRequest plainLibs (sampleEnv\<lparr> supabase := Some (sampleSupabase False False) \<rparr>)
                  sampleBody (Records [])) = submitted"
proof -
  let ?E = "sampleEnv\<lparr> supabase := Some (sampleSupabase False False) \<rparr>"
  have v: "fst (validationResult plainLibs sampleBody) = []" by (simp add: sample_valid)
  have rd1: "readRequests renderFailsEnv (Records []) = Array []"
    by (simp add: readRequests_def sample_env_fields)
  have out1: "trace (submitRequest plainLibs renderFailsEnv sampleBody (Records [])) =
      WriteLedger [sampleRequest] True # RenderPDF False # mirrorStage renderFailsEnv sampleRequest"
    by (simp add: sample_outcome [OF sample_env_fields(4) rd1 sample_env_fields(7,8)]
        pdfStage_render_fails)
  have w1: "list_ex ledgerWriteOk (trace (submitRequest plainLibs renderFailsEnv sampleBody (Records [])))"
    by (simp add: out1)
  have f: "\<not> writeFails ?E" "dateNow ?E = dateNow sampleEnv" "toISOString ?E = toISOString sampleEnv"
    by (simp_all add: sampleEnv_def)
  have rd2: "readRequests ?E (Records []) = Array []"
    by (simp add: readRequests_def sampleEnv_def)
  have out2: "trace (submitRequest plainLibs ?E sampleBody (Records [])) =
      [WriteLedger [sampleRequest] True, RenderPDF True,
       UploadPDF (sanitizeFilename (fileNameFor ?E sampleRequest)) False,
       InsertRow (requestRow sampleRequest) False]"
    by (simp add: sample_outcome [OF f(1) rd2 f(2,3)] pdfStage_upload_fails mirrorStage_trace)
       (simp add: sampleEnv_def sampleSupabase_def)
  have w2: "list_ex ledgerWriteOk (trace (submitRequest plainLibs ?E sampleBody (Records [])))"
    by (simp add: out2)
  from v w1 w2 show ?thesis
    using stage_failures_tolerated [of plainLibs sampleBody renderFailsEnv "Records []"]
      stage_failures_tolerated [of plainLibs sampleBody ?E "Records []"]
    by (simp add: out1 out2)
qed

theorem ledger_failure_fatal_witness:
  "fst (validationResult plainLibs sampleBody) = []
   \<and> list_ex ledgerWriteFailed
        (trace (submitRequest plainLibs (sampleEnv\<lparr> writeFails := True \<rparr>) sampleBody (Records [])))
   \<and> response (submitRequest plainLibs (sampleEnv\<lparr> writeFails := True \<rparr>) sampleBody (Records []))
       = genericFailure
   \<and> \<not> list_ex downstream
        (trace (submitRequest plainLibs (sampleEnv\<lparr> writeFails := True \<rparr>) sampleBody (Records [])))"
proof -
  let ?E = "sampleEnv\<lparr> writeFails := True \<rparr>"
  have v: "fst (validationResult plainLibs sampleBody) = []" by (simp add: sample_valid)
  have bl: "buildRequest plainLibs ?E (snd (validationResult plainLibs sampleBody)) = Some sampleRequest"
    by (simp add: sample_valid sample_built) (simp add: sampleEnv_def sampleRequest_def decimal_samples)
  have rd: "readRequests ?E (Records []) = Array []" by (simp add: readRequests_def sampleEnv_def)
  have wf: "writeFails ?E" by simp
  have "trace (submitRequest plainLibs ?E sampleBody (Records [])) = [WriteLedger [sampleRequest] False]"
    using submit_write_failed [OF v bl rd wf] by simp
  then have w: "list_ex ledgerWriteFailed (trace (submitRequest plainLibs ?E sampleBody (Records [])))"
    by simp
  from v w show ?thesis
    using ledger_failure_fatal [of plainLibs sampleBody ?E "Records []"] by simp
qed

theorem pdfUrl_attached_after_ledger_write_witness:
  "fst (validationResult plainLibs sampleBody) = []
   \<and> buildRequest plainLibs sampleEnv (snd (validationResult plainLibs sampleBody)) = Some sampleRequest
   \<and> readRequests sampleEnv (Records []) = Array []
   \<and> \<not> writeFails sampleEnv
   \<and> ledger (submitRequest plainLibs sampleEnv sampleBody (Records [])) = Records [sampleRequest]
   \<and> pdfUrl sampleRequest = None
   \<and> requestObject (submitRequest plainLibs sampleEnv sampleBody (Records [])) =
        Some (sampleRequest\<lparr> pdfUrl :=
                Some (publicUrl (sampleSupabase True True) (fileNameFor sampleEnv sampleRequest)) \<rparr>)
   \<and> InsertRow
        (requestRow (sampleRequest\<lparr> pdfUrl :=
                Some (publicUrl (sampleSupabase True True) (fileNameFor sampleEnv sampleRequest)) \<rparr>))
        True
        \<in> set (trace (submitRequest plainLibs sampleEnv sampleBody (Records [])))"
proof -
  have v: "fst (validationResult plainLibs sampleBody) = []" by (simp add: sample_valid)
  have bl: "buildRequest plainLibs sampleEnv (snd (validationResult plainLibs sampleBody))
              = Some sampleRequest"
    by (simp add: sample_valid sample_built_now)
  have rd: "readRequests sampleEnv (Records []) = Array []"
    by (simp add: readRequests_def sample_env_fields)
  have wr: "\<not> writeFails sampleEnv" by (simp add: sample_env_fields)
  have tr: "RenderPDF True \<in> set (trace (submitRequest plainLibs sampleEnv sampleBody (Records [])))"
    "list_ex uploadOk (trace (submitRequest plainLibs sampleEnv sampleBody (Records [])))"
    by (simp_all add: sample_outcome [OF sample_env_fields(2) rd] pdfStage_works)
  have sb: "supabase sampleEnv = Some (sampleSupabase True True)"
    "dbInsert (sampleSupabase True True) = (\<lambda>r. True)"
    by (simp_all add: sampleEnv_def sampleSupabase_def)
  from pdfUrl_attached_after_ledger_write [OF v bl rd wr] tr sb v bl rd wr
  show ?thesis by simp
qed


theorem unreadable_ledger_is_replaced_witness:
  "readFails (sampleEnv\<lparr> readFails := True \<rparr>)
   \<and> readRequests (sampleEnv\<lparr> readFails := True \<rparr>)
        (Records [sampleRequest\<lparr> clientName := js ''Grace Hopper'' \<rparr>]) = Array []
   \<and> ledger (submitRequest plainLibs (sampleEnv\<lparr> readFails := True \<rparr>) sampleBody
               (Records [sampleRequest\<lparr> clientName := js ''Grace Hopper'' \<rparr>]))
       = Records [sampleRequest]
   \<and> response (submitRequest plainLibs (sampleEnv\<lparr> readFails := True \<rparr>) sampleBody
               (Records [sampleRequest\<lparr> clientName := js ''Grace Hopper'' \<rparr>]))
       = submitted"
proof -
  let ?E = "sampleEnv\<lparr> readFails := True \<rparr>"
  have rf: "readFails ?E \<or> Records [sampleRequest\<lparr> clientName := js ''Grace Hopper'' \<rparr>] = Missing
            \<or> Records [sampleRequest\<lparr> clientName := js ''Grace Hopper'' \<rparr>] = InvalidJSON"
    by simp
  have v: "fst (validationResult plainLibs sampleBody) = []" by (simp add: sample_valid)
  have bl: "buildRequest plainLibs ?E (snd (validationResult plainLibs sampleBody)) = Some sampleRequest"
    by (simp add: sample_valid sample_built) (simp add: sampleEnv_def sampleRequest_def decimal_samples)
  have wr: "\<not> writeFails ?E" by (simp add: sampleEnv_def)
  from unreadable_ledger_is_replaced [OF rf, of plainLibs sampleBody sampleRequest] v bl wr
  show ?thesis by simp
qed

lemma others_accept_sample:
  "\<forall>ch \<in> set validateSubmitRequest. fst ch \<noteq> ''designDescription'' \<longrightarrow>
     chainErrors plainLibs ch (sampleBody(''designDescription'' := v)) = []"
  apply (simp add: validateSubmitRequest_def sampleBody_def
       chainErrors_def skipped_def check_def trim_samples)
  apply (simp add: plainLibs_def isLength_def validatorLength_samples)
  apply (simp add: js_def)
  done

lemma padded_parts:
  "list_all jsWhitespace [0x20, 0x09]" "list_all jsWhitespace [0x0A, 0x20]"
  "0 < n \<Longrightarrow> replicate n 0x61 = [] \<or>
     (\<not> jsWhitespace (hd (replicate n (0x61 :: jschar)))
      \<and> \<not> jsWhitespace (last (replicate n (0x61 :: jschar))))"
  by (simp_all add: jsWhitespace_def)

lemma count_replicate: "validatorLength (replicate n 0x61) = n"
  by (rule trans [OF validatorLength_plain])
     (simp_all add: list_ex_iff variationSelector_def highSurrogate_def)

theorem description_length_boundaries_witness:
  "response (submitRequest plainLibs sampleEnv
       (sampleBody(''designDescription'' := JString (padded (replicate 9 0x61)))) (Records []))
     = validationFailed [''Description must be between 10 and 5000 characters'']
   \<and> fst (validationResult plainLibs
       (sampleBody(''designDescription'' := JString (padded (replicate 10 0x61))))) = []
   \<and> fst (validationResult plainLibs
       (sampleBody(''designDescription'' := JString (padded (replicate 5000 0x61))))) = []
   \<and> response (submitRequest plainLibs sampleEnv
       (sampleBody(''designDescription'' := JString (padded (replicate 5001 0x61)))) (Records []))
     = validationFailed [''Description must be between 10 and 5000 characters'']
   \<and> length (padded (replicate 9 0x61)) = 13
   \<and> validatorLength (replicate 5000 0x61) = length (replicate 5000 (0x61 :: jschar))"
proof -
  note t9 = description_length_boundaries
    [where b = "sampleBody(''designDescription'' := JString (padded (replicate 9 0x61)))"
       and E = sampleEnv and lf = "Records []" and pre = "[0x20, 0x09]"
       and core = "replicate 9 0x61" and post = "[0x0A, 0x20]", OF others_accept_sample]
  note t10 = description_length_boundaries
    [where b = "sampleBody(''designDescription'' := JString (padded (replicate 10 0x61)))"
       and E = sampleEnv and lf = "Records []" and pre = "[0x20, 0x09]"
       and core = "replicate 10 0x61" and post = "[0x0A, 0x20]", OF others_accept_sample]
  note t5000 = description_length_boundaries
    [where b = "sampleBody(''designDescription'' := JString (padded (replicate 5000 0x61)))"
       and E = sampleEnv and lf = "Records []" and pre = "[0x20, 0x09]"
       and core = "replicate 5000 0x61" and post = "[0x0A, 0x20]", OF others_accept_sample]
  note t5001 = description_length_boundaries
    [where b = "sampleBody(''designDescription'' := JString (padded (replicate 5001 0x61)))"
       and E = sampleEnv and lf = "Records []" and pre = "[0x20, 0x09]"
       and core = "replicate 5001 0x61" and post = "[0x0A, 0x20]", OF others_accept_sample]
  show ?thesis
    using t9 t10 t5000 t5001
    by (simp add: count_replicate padded_def jsWhitespace_def)
qed

text \<open>
  The claim C7 as the specification states it fails: a description of ten code units that
  ends in U+1F600 counts nine and is rejected, and one of 5001 code units that ends in
  U+1F600 counts 5000 and passes validation.
\<close>

theorem description_length_counterexample:
  "length (trim (replicate 8 0x61 @ emoji)) = 10
   \<and> response (submitRequest plainLibs sampleEnv
        (sampleBody(''designDescription'' := JString (replicate 8 0x61 @ emoji))) (Records []))
      = validationFailed [''Description must be between 10 and 5000 characters'']
   \<and> length (trim (replicate 4999 0x61 @ emoji)) = 5001
   \<and> fst (validationResult plainLibs
        (sampleBody(''designDescription'' := JString (replicate 4999 0x61 @ emoji)))) = []"
proof -
  let ?msg = "''Description must be between 10 and 5000 characters''"
  have tr: "trim (replicate n 0x61 @ emoji) = replicate n 0x61 @ emoji" for n
    using trim_decompose [of "[]" "[]" "replicate n 0x61 @ emoji"]
    by (cases n) (simp_all add: emoji_def jsWhitespace_def)
  have vs: "filter variationSelector (replicate n 0x61) = []"
    "filter variationSelector emoji = []" for n
    by (simp_all add: emoji_def variationSelector_def)
  have sp: "surrogatePairs (replicate n 0x61 @ emoji) = 1" for n
    by (simp add: surrogatePairs_replicate highSurrogate_def)
       (simp add: emoji_def highSurrogate_def lowSurrogate_def)
  have le: "length emoji = 2" by (simp add: emoji_def)
  have cnt: "validatorLength (replicate n 0x61 @ emoji) = n + 1" for n
    by (simp add: validatorLength_def presentationSequences_def vs sp le)
  have errs: "fst (validationResult plainLibs
        (sampleBody(''designDescription'' := JString (replicate n 0x61 @ emoji))))
      = (if 10 \<le> n + 1 \<and> n + 1 \<le> 5000 then [] else [?msg])" for n
    using validation_errors_description [OF others_accept_sample]
    by (simp add: description_errors tr cnt)
  have e8: "fst (validationResult plainLibs
        (sampleBody(''designDescription'' := JString (replicate 8 0x61 @ emoji)))) = [?msg]"
    by (simp add: errs)
  then have "fst (validationResult plainLibs
        (sampleBody(''designDescription'' := JString (replicate 8 0x61 @ emoji)))) \<noteq> []"
    by simp
  then have r8: "response (submitRequest plainLibs sampleEnv
        (sampleBody(''designDescription'' := JString (replicate 8 0x61 @ emoji))) (Records []))
      = validationFailed [?msg]"
    by (simp add: submit_invalid e8)
  have l: "length (trim (replicate 8 0x61 @ emoji)) = 10"
    "length (trim (replicate 4999 0x61 @ emoji)) = 5001"
    by (simp_all add: tr le)
  from r8 l show ?thesis by (simp add: errs)
qed


end
